theory Spec2Isabelle
  imports Complex_Main "HOL-Library.Stream" "HOL-Library.Char_ord" "HOL-Library.List_Lexorder"
begin

section \<open>Python values, exceptions and sequencing\<close>

text \<open>
  The two modules verified here are \<^verbatim>\<open>Agents/analyze_health_data.py\<close> (the statistics
  engine, function \<^verbatim>\<open>analyze_data_statistics\<close>) and
  \<^verbatim>\<open>Agents/smartwatch_health_data_generator.py\<close> (class \<^verbatim>\<open>SmartWatchDataGenerator\<close>).

  Python objects that end up in a dictionary are values of \<open>pyval\<close>. A \<^verbatim>\<open>float\<close> whose
  decimal value the program fixes (a literal, a cell of a table, a value that Python's
  own \<^verbatim>\<open>round\<close> returned) is the real number it stands for, \<open>PFloat\<close>. The binary
  arithmetic of pandas and numpy is not modelled: the \<^verbatim>\<open>float64\<close> that a reduction
  (\<^verbatim>\<open>mean\<close>, \<^verbatim>\<open>std\<close>, the \<^verbatim>\<open>sum\<close> of a float column) or numpy's \<^verbatim>\<open>round(x, 1)\<close> returns
  is kept as the call with its operands, a value of \<open>np_float\<close> under \<open>PNp\<close>, so that the
  model fixes no digit that depends on binary rounding or on the order of a summation.
  \<^verbatim>\<open>nan\<close> is a value of its own. A \<^verbatim>\<open>dict\<close> keeps insertion order and is an association
  list. An f-string is kept as the list of its literal pieces and interpolated values
  (\<open>PFmt\<close>); rendering numbers to characters is not modelled.
\<close>

text \<open>The \<^verbatim>\<open>float64\<close> results of the library: a cell of a float column as it is,
  \<^verbatim>\<open>mean()\<close>, \<^verbatim>\<open>std()\<close> (the sample standard deviation, \<^verbatim>\<open>ddof=1\<close>) and \<^verbatim>\<open>sum()\<close> of a
  column with the given cells, and \<^verbatim>\<open>round(x, 1)\<close> of such a result.\<close>

datatype np_float =
    NpCell real
  | NpMean "real list"
  | NpStd "real list"
  | NpSum "real list"
  | NpRound1 np_float

datatype pyval =
    PInt int
  | PFloat real
  | PNp np_float
  | PNaN
  | PStr string
  | PFmt "pyval list"
  | PDict "(string \<times> pyval) list"

text \<open>The built-in exceptions that the code can raise. Neither module defines an
  exception class of its own and neither contains a \<^verbatim>\<open>raise\<close> statement or a handler
  around the functions modelled here: every failure is one of these, raised by a
  subscript or by a library call.\<close>

datatype error =
    KeyError string
  | IndexError
  | TypeError
  | ValueError

definition and_then :: "error + 'a \<Rightarrow> ('a \<Rightarrow> error + 'b) \<Rightarrow> error + 'b" where
  "and_then m f = (case m of Inl e \<Rightarrow> Inl e | Inr x \<Rightarrow> f x)"

text \<open>\<^verbatim>\<open>d[k]\<close> on a dict, and \<^verbatim>\<open>d[k] = v\<close>: an existing key keeps its position, a new
  key goes to the end.\<close>

definition dict_getitem :: "(string \<times> 'v) list \<Rightarrow> string \<Rightarrow> error + 'v" where
  "dict_getitem d k = (case map_of d k of None \<Rightarrow> Inl (KeyError k) | Some v \<Rightarrow> Inr v)"

fun dict_setitem :: "(string \<times> 'v) list \<Rightarrow> string \<Rightarrow> 'v \<Rightarrow> (string \<times> 'v) list" where
  "dict_setitem [] k v = [(k, v)]"
| "dict_setitem ((k', v') # d) k v =
     (if k' = k then (k, v) # d else (k', v') # dict_setitem d k v)"

definition dict_keys :: "(string \<times> 'v) list \<Rightarrow> string list" where
  "dict_keys d = map fst d"

definition dict_values :: "(string \<times> 'v) list \<Rightarrow> 'v list" where
  "dict_values d = map snd d"

text \<open>Python's \<^verbatim>\<open>round(x, 1)\<close> on a \<^verbatim>\<open>float\<close>, as the generator calls it: to the nearest
  multiple of one tenth, ties to the even one.\<close>

definition round_half_even :: "real \<Rightarrow> int" where
  "round_half_even x =
     (let f = \<lfloor>x\<rfloor>; d = x - of_int f
      in if d < 1 / 2 then f
         else if 1 / 2 < d then f + 1
         else if even f then f else f + 1)"

definition round1 :: "real \<Rightarrow> real" where
  "round1 x = of_int (round_half_even (x * 10)) / 10"

text \<open>\<^verbatim>\<open>round(x, 1)\<close> on what a reduction of a column returns, as the statistics engine
  calls it. These are numpy scalars, and the call goes to numpy: a \<^verbatim>\<open>float64\<close> gives a
  \<^verbatim>\<open>float64\<close> (kept as the call), an \<^verbatim>\<open>int64\<close> stays what it is, \<^verbatim>\<open>nan\<close> stays
  \<^verbatim>\<open>nan\<close>, anything else is a \<^verbatim>\<open>TypeError\<close>.\<close>

fun py_round1 :: "pyval \<Rightarrow> error + pyval" where
  "py_round1 (PFloat x) = Inr (PNp (NpRound1 (NpCell x)))"
| "py_round1 (PNp x) = Inr (PNp (NpRound1 x))"
| "py_round1 (PInt n) = Inr (PInt n)"
| "py_round1 PNaN = Inr PNaN"
| "py_round1 _ = Inl TypeError"

section \<open>The pandas objects used by the statistics engine\<close>

text \<open>
  A \<^verbatim>\<open>Series\<close> is a column of one dtype: \<^verbatim>\<open>int64\<close>, \<^verbatim>\<open>float64\<close> or \<^verbatim>\<open>object\<close>
  (strings). Cells are numbers or strings; a blank cell (\<^verbatim>\<open>NaN\<close> inside a column) is
  outside the model, the cells of an \<^verbatim>\<open>int64\<close> column are taken to fit 64 bits, and the
  cells of a \<^verbatim>\<open>float64\<close> column are the decimal numbers of the table, of a size at which
  no reduction overflows. A \<^verbatim>\<open>DataFrame\<close> is its row count (the length of the index) and
  its named columns.
\<close>

datatype series =
    IntCol "int list"
  | FloatCol "real list"
  | StrCol "string list"

record dataframe =
  index_len :: nat
  columns :: "(string \<times> series) list"

text \<open>\<^verbatim>\<open>len(df)\<close> and \<^verbatim>\<open>df[name]\<close>.\<close>

definition df_len :: "dataframe \<Rightarrow> nat" where
  "df_len df = index_len df"

definition df_getitem :: "dataframe \<Rightarrow> string \<Rightarrow> error + series" where
  "df_getitem df name = dict_getitem (columns df) name"

text \<open>\<^verbatim>\<open>s.iloc[i]\<close>: positional access, a negative position counts from the end, a
  position outside the column raises \<^verbatim>\<open>IndexError\<close>.\<close>

definition list_iloc :: "'a list \<Rightarrow> int \<Rightarrow> error + 'a" where
  "list_iloc xs i =
     (if 0 \<le> i \<and> i < int (length xs) then Inr (xs ! nat i)
      else if i < 0 \<and> - int (length xs) \<le> i then Inr (xs ! nat (int (length xs) + i))
      else Inl IndexError)"

fun iloc :: "series \<Rightarrow> int \<Rightarrow> error + pyval" where
  "iloc (IntCol xs) i = and_then (list_iloc xs i) (\<lambda>x. Inr (PInt x))"
| "iloc (FloatCol xs) i = and_then (list_iloc xs i) (\<lambda>x. Inr (PFloat x))"
| "iloc (StrCol xs) i = and_then (list_iloc xs i) (\<lambda>x. Inr (PStr x))"

text \<open>The reductions \<^verbatim>\<open>mean()\<close>, \<^verbatim>\<open>min()\<close>, \<^verbatim>\<open>max()\<close>, \<^verbatim>\<open>std()\<close> and \<^verbatim>\<open>sum()\<close>.
  On an empty numeric column \<^verbatim>\<open>mean\<close>, \<^verbatim>\<open>min\<close> and \<^verbatim>\<open>max\<close> give \<^verbatim>\<open>nan\<close>.
  \<^verbatim>\<open>std\<close> is the sample standard deviation (pandas' default \<^verbatim>\<open>ddof=1\<close>) and is
  \<^verbatim>\<open>nan\<close> on fewer than two cells. \<^verbatim>\<open>mean\<close> and \<^verbatim>\<open>std\<close> are computed in \<^verbatim>\<open>float64\<close>
  whatever the dtype of the column, and their result is kept as the call on the cells;
  \<^verbatim>\<open>min\<close> and \<^verbatim>\<open>max\<close> return a cell. \<^verbatim>\<open>mean\<close> and \<^verbatim>\<open>std\<close> of a column of strings raise
  \<^verbatim>\<open>TypeError\<close>. The sum of an \<^verbatim>\<open>int64\<close> column wraps around at 64 bits; the sum of
  a column of strings is their concatenation.\<close>

definition wrap64 :: "int \<Rightarrow> int" where
  "wrap64 n = (n + 2 ^ 63) mod 2 ^ 64 - 2 ^ 63"

definition list_mean :: "real list \<Rightarrow> pyval" where
  "list_mean xs = (if xs = [] then PNaN else PNp (NpMean xs))"

fun series_mean :: "series \<Rightarrow> error + pyval" where
  "series_mean (IntCol xs) = Inr (list_mean (map real_of_int xs))"
| "series_mean (FloatCol xs) = Inr (list_mean xs)"
| "series_mean (StrCol xs) = Inl TypeError"

fun list_min :: "('a::linorder) list \<Rightarrow> 'a option" where
  "list_min [] = None"
| "list_min (x # xs) = Some (fold min xs x)"

fun list_max :: "('a::linorder) list \<Rightarrow> 'a option" where
  "list_max [] = None"
| "list_max (x # xs) = Some (fold max xs x)"

fun series_min :: "series \<Rightarrow> pyval" where
  "series_min (IntCol xs) = (case list_min xs of None \<Rightarrow> PNaN | Some m \<Rightarrow> PInt m)"
| "series_min (FloatCol xs) = (case list_min xs of None \<Rightarrow> PNaN | Some m \<Rightarrow> PFloat m)"
| "series_min (StrCol xs) = (case list_min xs of None \<Rightarrow> PNaN | Some m \<Rightarrow> PStr m)"

fun series_max :: "series \<Rightarrow> pyval" where
  "series_max (IntCol xs) = (case list_max xs of None \<Rightarrow> PNaN | Some m \<Rightarrow> PInt m)"
| "series_max (FloatCol xs) = (case list_max xs of None \<Rightarrow> PNaN | Some m \<Rightarrow> PFloat m)"
| "series_max (StrCol xs) = (case list_max xs of None \<Rightarrow> PNaN | Some m \<Rightarrow> PStr m)"

definition list_std :: "real list \<Rightarrow> pyval" where
  "list_std xs = (if length xs \<le> 1 then PNaN else PNp (NpStd xs))"

fun series_std :: "series \<Rightarrow> error + pyval" where
  "series_std (IntCol xs) = Inr (list_std (map real_of_int xs))"
| "series_std (FloatCol xs) = Inr (list_std xs)"
| "series_std (StrCol xs) = Inl TypeError"

fun series_sum :: "series \<Rightarrow> pyval" where
  "series_sum (IntCol xs) = PInt (wrap64 (sum_list xs))"
| "series_sum (FloatCol xs) = PNp (NpSum xs)"
| "series_sum (StrCol xs) = (if xs = [] then PInt 0 else PStr (concat xs))"

text \<open>\<^verbatim>\<open>s > c\<close> and \<^verbatim>\<open>s < c\<close> for a number \<open>c\<close>: the boolean mask, cell by cell; a
  column of strings cannot be compared with a number.\<close>

fun series_gt :: "series \<Rightarrow> real \<Rightarrow> error + bool list" where
  "series_gt (IntCol xs) c = Inr (map (\<lambda>x. c < real_of_int x) xs)"
| "series_gt (FloatCol xs) c = Inr (map (\<lambda>x. c < x) xs)"
| "series_gt (StrCol xs) c = Inl TypeError"

fun series_lt :: "series \<Rightarrow> real \<Rightarrow> error + bool list" where
  "series_lt (IntCol xs) c = Inr (map (\<lambda>x. real_of_int x < c) xs)"
| "series_lt (FloatCol xs) c = Inr (map (\<lambda>x. x < c) xs)"
| "series_lt (StrCol xs) c = Inl TypeError"

text \<open>\<^verbatim>\<open>df[mask]\<close>: a new frame with the rows at which the mask is true.\<close>

definition select :: "bool list \<Rightarrow> 'a list \<Rightarrow> 'a list" where
  "select bs xs = map snd (filter fst (zip bs xs))"

fun series_select :: "bool list \<Rightarrow> series \<Rightarrow> series" where
  "series_select bs (IntCol xs) = IntCol (select bs xs)"
| "series_select bs (FloatCol xs) = FloatCol (select bs xs)"
| "series_select bs (StrCol xs) = StrCol (select bs xs)"

definition df_mask :: "dataframe \<Rightarrow> bool list \<Rightarrow> dataframe" where
  "df_mask df bs =
     \<lparr> index_len = length (select bs [0 ..< index_len df]),
       columns = map (\<lambda>(name, col). (name, series_select bs col)) (columns df) \<rparr>"

section \<open>The statistics engine: \<^verbatim>\<open>analyze_data_statistics\<close>\<close>

text \<open>The sub-dictionaries of the \<^verbatim>\<open>stats\<close> literal (source lines 19 to 49), each with
  its subscripts and reductions in the order in which Python evaluates them.\<close>

definition heart_rate_entry :: "dataframe \<Rightarrow> error + pyval" where
  "heart_rate_entry df =
     and_then (df_getitem df ''heart_rate'') (\<lambda>c1.
     and_then (series_mean c1) (\<lambda>m.
     and_then (py_round1 m) (\<lambda>avg.
     and_then (df_getitem df ''heart_rate'') (\<lambda>c2.
     and_then (df_getitem df ''heart_rate'') (\<lambda>c3.
     and_then (df_getitem df ''heart_rate'') (\<lambda>c4.
     and_then (series_std c4) (\<lambda>s.
     and_then (py_round1 s) (\<lambda>std.
     Inr (PDict [(''avg'', avg), (''min'', series_min c2), (''max'', series_max c3),
                 (''std'', std)])))))))))"

definition avg_min_max_entry :: "dataframe \<Rightarrow> string \<Rightarrow> error + pyval" where
  \<comment> \<open>the shape shared by the \<^verbatim>\<open>'spo2'\<close> and \<^verbatim>\<open>'temperature'\<close> entries\<close>
  "avg_min_max_entry df name =
     and_then (df_getitem df name) (\<lambda>c1.
     and_then (series_mean c1) (\<lambda>m.
     and_then (py_round1 m) (\<lambda>avg.
     and_then (df_getitem df name) (\<lambda>c2.
     and_then (py_round1 (series_min c2)) (\<lambda>mn.
     and_then (df_getitem df name) (\<lambda>c3.
     and_then (py_round1 (series_max c3)) (\<lambda>mx.
     Inr (PDict [(''avg'', avg), (''min'', mn), (''max'', mx)]))))))))"

definition blood_pressure_entry :: "dataframe \<Rightarrow> error + pyval" where
  "blood_pressure_entry df =
     and_then (df_getitem df ''systolic_bp'') (\<lambda>s1.
     and_then (series_mean s1) (\<lambda>sm.
     and_then (py_round1 sm) (\<lambda>systolic_avg.
     and_then (df_getitem df ''diastolic_bp'') (\<lambda>d1.
     and_then (series_mean d1) (\<lambda>dm.
     and_then (py_round1 dm) (\<lambda>diastolic_avg.
     and_then (df_getitem df ''systolic_bp'') (\<lambda>s2.
     and_then (df_getitem df ''systolic_bp'') (\<lambda>s3.
     and_then (df_getitem df ''diastolic_bp'') (\<lambda>d2.
     and_then (df_getitem df ''diastolic_bp'') (\<lambda>d3.
     Inr (PDict [(''systolic_avg'', systolic_avg), (''diastolic_avg'', diastolic_avg),
                 (''systolic_range'', PFmt [series_min s2, PStr ''-'', series_max s3]),
                 (''diastolic_range'', PFmt [series_min d2, PStr ''-'', series_max d3])
                ])))))))))))"

definition stress_level_entry :: "dataframe \<Rightarrow> error + pyval" where
  "stress_level_entry df =
     and_then (df_getitem df ''stress_level'') (\<lambda>c1.
     and_then (series_mean c1) (\<lambda>m.
     and_then (py_round1 m) (\<lambda>avg.
     and_then (df_getitem df ''stress_level'') (\<lambda>c2.
     Inr (PDict [(''avg'', avg), (''max'', series_max c2)])))))"

text \<open>\<^verbatim>\<open>len(df[df[name] > c])\<close> and \<^verbatim>\<open>len(df[df[name] < c])\<close>.\<close>

definition count_gt :: "dataframe \<Rightarrow> string \<Rightarrow> real \<Rightarrow> error + int" where
  "count_gt df name c =
     and_then (df_getitem df name) (\<lambda>col.
     and_then (series_gt col c) (\<lambda>bs.
     Inr (int (df_len (df_mask df bs)))))"

definition count_lt :: "dataframe \<Rightarrow> string \<Rightarrow> real \<Rightarrow> error + int" where
  "count_lt df name c =
     and_then (df_getitem df name) (\<lambda>col.
     and_then (series_lt col c) (\<lambda>bs.
     Inr (int (df_len (df_mask df bs)))))"

text \<open>The \<^verbatim>\<open>anomalies\<close> literal (source lines 52 to 61).\<close>

definition anomalies_dict :: "dataframe \<Rightarrow> error + (string \<times> int) list" where
  "anomalies_dict df =
     and_then (count_gt df ''heart_rate'' 120) (\<lambda>high_heart_rate.
     and_then (count_lt df ''heart_rate'' 60) (\<lambda>low_heart_rate.
     and_then (count_lt df ''spo2'' 95) (\<lambda>low_oxygen.
     and_then (count_gt df ''temperature'' 37.2) (\<lambda>high_temp.
     and_then (count_lt df ''temperature'' 36.1) (\<lambda>low_temp.
     and_then (count_gt df ''systolic_bp'' 130) (\<lambda>high_bp.
     and_then (count_lt df ''systolic_bp'' 110) (\<lambda>low_bp.
     and_then (count_gt df ''stress_level'' 6) (\<lambda>high_stress.
     Inr [(''high_heart_rate'', high_heart_rate),
          (''low_heart_rate'', low_heart_rate),
          (''low_oxygen'', low_oxygen),
          (''high_temp'', high_temp),
          (''low_temp'', low_temp),
          (''high_bp'', high_bp),
          (''low_bp'', low_bp),
          (''high_stress'', high_stress)]))))))))"

text \<open>The function itself: the \<^verbatim>\<open>stats\<close> literal, the \<^verbatim>\<open>anomalies\<close> literal, then
  \<^verbatim>\<open>stats['anomalies'] = anomalies\<close> and
  \<^verbatim>\<open>stats['total_anomalies'] = sum(anomalies.values())\<close> add two keys to the dictionary;
  the counts are Python integers, so their sum does not wrap.\<close>

definition stats_literal :: "dataframe \<Rightarrow> error + (string \<times> pyval) list" where
  "stats_literal df =
     and_then (df_getitem df ''timestamp'') (\<lambda>t1.
     and_then (iloc t1 0) (\<lambda>first_ts.
     and_then (df_getitem df ''timestamp'') (\<lambda>t2.
     and_then (iloc t2 (- 1)) (\<lambda>last_ts.
     and_then (heart_rate_entry df) (\<lambda>hr.
     and_then (avg_min_max_entry df ''spo2'') (\<lambda>ox.
     and_then (avg_min_max_entry df ''temperature'') (\<lambda>temp.
     and_then (blood_pressure_entry df) (\<lambda>bp.
     and_then (stress_level_entry df) (\<lambda>stress.
     and_then (df_getitem df ''steps'') (\<lambda>st.
     Inr [(''total_readings'', PInt (int (df_len df))),
          (''time_span'', PFmt [first_ts, PStr '' to '', last_ts]),
          (''heart_rate'', hr),
          (''spo2'', ox),
          (''temperature'', temp),
          (''blood_pressure'', bp),
          (''stress_level'', stress),
          (''total_steps'', series_sum st)]))))))))))"

definition finish_stats :: "(string \<times> pyval) list \<Rightarrow> (string \<times> int) list \<Rightarrow> pyval" where
  \<comment> \<open>source lines 63 to 66\<close>
  "finish_stats stats anomalies =
     (let stats = dict_setitem stats ''anomalies''
                    (PDict (map (\<lambda>(k, n). (k, PInt n)) anomalies));
          stats = dict_setitem stats ''total_anomalies''
                    (PInt (sum_list (dict_values anomalies)))
      in PDict stats)"

definition analyze_data_statistics :: "dataframe \<Rightarrow> error + pyval" where
  "analyze_data_statistics df =
     and_then (stats_literal df) (\<lambda>stats.
     and_then (anomalies_dict df) (\<lambda>anomalies.
     Inr (finish_stats stats anomalies)))"

section \<open>The random source\<close>

text \<open>
  The generator draws from the process-wide generator of module \<^verbatim>\<open>random\<close>. It is
  threaded through the model as an infinite stream of natural numbers: each library
  call takes the next one and maps it into its range, so that quantifying over all
  streams covers every outcome the library can produce. How the library turns the bits
  of its generator into a draw (rejection sampling in \<^verbatim>\<open>randint\<close>) is not modelled.
  A computation that threads a state \<open>'s\<close> and may raise has type \<open>('a, 's) prog\<close>;
  one that draws has type \<open>'a gen\<close>.
\<close>

type_synonym ('a, 's) prog = "'s \<Rightarrow> (error + 'a) \<times> 's"

definition prog_bind :: "('a, 's) prog \<Rightarrow> ('a \<Rightarrow> ('b, 's) prog) \<Rightarrow> ('b, 's) prog" where
  "prog_bind m f s = (case m s of (Inl e, s') \<Rightarrow> (Inl e, s') | (Inr x, s') \<Rightarrow> f x s')"

definition prog_return :: "'a \<Rightarrow> ('a, 's) prog" where
  "prog_return x s = (Inr x, s)"

definition prog_lift :: "error + 'a \<Rightarrow> ('a, 's) prog" where
  "prog_lift r s = (r, s)"

type_synonym rng = "nat stream"

type_synonym 'a gen = "('a, rng) prog"

text \<open>\<^verbatim>\<open>random.random()\<close>: a multiple of \<open>2\<^sup>-\<^sup>5\<^sup>3\<close> in \<open>[0, 1)\<close>.\<close>

definition random_random :: "real gen" where
  "random_random g = (Inr (real (shd g mod 2 ^ 53) / 2 ^ 53), stl g)"

text \<open>\<^verbatim>\<open>random.uniform(a, b)\<close> is \<^verbatim>\<open>a + (b - a) * random()\<close>.\<close>

definition random_uniform :: "real \<Rightarrow> real \<Rightarrow> real gen" where
  "random_uniform a b = prog_bind random_random (\<lambda>u. prog_return (a + (b - a) * u))"

text \<open>\<^verbatim>\<open>random.randint(a, b)\<close>: an integer of \<open>[a, b]\<close>; an empty range raises
  \<^verbatim>\<open>ValueError\<close> before anything is drawn.\<close>

definition random_randint :: "int \<Rightarrow> int \<Rightarrow> int gen" where
  "random_randint a b g =
     (if b < a then (Inl ValueError, g)
      else (Inr (a + int (shd g mod nat (b - a + 1))), stl g))"

text \<open>\<^verbatim>\<open>random.choices(population, weights=weights)\<close> with the default \<^verbatim>\<open>k=1\<close>: the
  running sums of the weights, one draw scaled to their total, and the first position
  (among all but the last) whose running sum exceeds it.\<close>

fun accumulate :: "real \<Rightarrow> real list \<Rightarrow> real list" where
  "accumulate acc [] = []"
| "accumulate acc (w # ws) = (acc + w) # accumulate (acc + w) ws"

definition bisect :: "real list \<Rightarrow> real \<Rightarrow> nat \<Rightarrow> nat" where
  \<comment> \<open>\<^verbatim>\<open>bisect(a, x, 0, hi)\<close> on a sorted list\<close>
  "bisect a x hi = length (takeWhile (\<lambda>c. c \<le> x) (take hi a))"

definition random_choices :: "'a list \<Rightarrow> real list \<Rightarrow> 'a list gen" where
  "random_choices population weights =
     (let n = length population; cum_weights = accumulate 0 weights
      in if length cum_weights \<noteq> n then prog_lift (Inl ValueError)
         else if cum_weights = [] then prog_lift (Inl IndexError)
         else let total = last cum_weights
              in if total \<le> 0 then prog_lift (Inl ValueError)
                 else prog_bind random_random (\<lambda>u.
                        prog_return [population ! bisect cum_weights (u * total) (n - 1)]))"

section \<open>The generator: \<^verbatim>\<open>SmartWatchDataGenerator\<close>\<close>

text \<open>A range is a pair of \<^verbatim>\<open>int\<close>s or a pair of \<^verbatim>\<open>float\<close>s; the entry of an anomaly
  configuration is a range or, under the key \<^verbatim>\<open>'probability'\<close>, a float.\<close>

datatype range = IntRange int int | FloatRange real real

datatype cfgval = Range range | Prob real

record generator =
  normal_ranges :: "(string \<times> range) list"
  anomaly_types :: "(string \<times> (string \<times> cfgval) list) list"

text \<open>\<^verbatim>\<open>__init__\<close>.\<close>

definition SmartWatchDataGenerator :: generator where
  "SmartWatchDataGenerator =
     \<lparr> normal_ranges =
         [(''heart_rate'', IntRange 60 100),
          (''spo2'', IntRange 95 100),
          (''temperature'', FloatRange 36.1 37.2),
          (''systolic_bp'', IntRange 110 130),
          (''diastolic_bp'', IntRange 70 85),
          (''steps'', IntRange 0 150),
          (''stress_level'', IntRange 1 5),
          (''sleep_hours'', FloatRange 6.5 9.0)],
       anomaly_types =
         [(''high_heart_rate'', [(''heart_rate'', Range (IntRange 120 180)), (''probability'', Prob 0.05)]),
          (''low_heart_rate'', [(''heart_rate'', Range (IntRange 40 55)), (''probability'', Prob 0.03)]),
          (''low_oxygen'', [(''spo2'', Range (IntRange 85 94)), (''probability'', Prob 0.04)]),
          (''high_temperature'', [(''temperature'', Range (FloatRange 37.5 39.5)), (''probability'', Prob 0.03)]),
          (''low_temperature'', [(''temperature'', Range (FloatRange 35.0 36.0)), (''probability'', Prob 0.02)]),
          (''high_bp'', [(''systolic_bp'', Range (IntRange 140 180)),
                         (''diastolic_bp'', Range (IntRange 90 110)), (''probability'', Prob 0.04)]),
          (''low_bp'', [(''systolic_bp'', Range (IntRange 80 100)),
                        (''diastolic_bp'', Range (IntRange 50 65)), (''probability'', Prob 0.03)]),
          (''high_stress'', [(''stress_level'', Range (IntRange 7 10)), (''probability'', Prob 0.06)]),
          (''poor_sleep'', [(''sleep_hours'', Range (FloatRange 3.0 5.5)), (''probability'', Prob 0.04)]),
          (''excessive_sleep'', [(''sleep_hours'', Range (FloatRange 10.0 12.0)), (''probability'', Prob 0.02)])] \<rparr>"

text \<open>\<^verbatim>\<open>random.randint(*r)\<close> and \<^verbatim>\<open>round(random.uniform(*r), 1)\<close> on a range \<open>r\<close>.
  \<^verbatim>\<open>randint\<close> rejects float bounds (no configured range reaches that case);
  \<^verbatim>\<open>uniform\<close> takes integers as well as floats.\<close>

fun randint_range :: "range \<Rightarrow> pyval gen" where
  "randint_range (IntRange a b) = prog_bind (random_randint a b) (\<lambda>n. prog_return (PInt n))"
| "randint_range (FloatRange a b) = prog_lift (Inl TypeError)"

fun uniform_range :: "range \<Rightarrow> pyval gen" where
  "uniform_range (IntRange a b) =
     prog_bind (random_uniform (real_of_int a) (real_of_int b)) (\<lambda>x. prog_return (PFloat (round1 x)))"
| "uniform_range (FloatRange a b) =
     prog_bind (random_uniform a b) (\<lambda>x. prog_return (PFloat (round1 x)))"

text \<open>\<^verbatim>\<open>_should_trigger_anomaly\<close> and \<^verbatim>\<open>_select_anomaly\<close>.\<close>

definition should_trigger_anomaly :: "bool gen" where
  "should_trigger_anomaly = prog_bind random_random (\<lambda>u. prog_return (u < 0.15))"

fun probability_of :: "(string \<times> cfgval) list \<Rightarrow> error + real" where
  "probability_of cfg =
     and_then (dict_getitem cfg ''probability'')
       (\<lambda>v. case v of Prob p \<Rightarrow> Inr p | Range r \<Rightarrow> Inl TypeError)"

fun weights_of :: "(string \<times> (string \<times> cfgval) list) list \<Rightarrow> string list \<Rightarrow> error + real list" where
  "weights_of types [] = Inr []"
| "weights_of types (a # as) =
     and_then (dict_getitem types a) (\<lambda>cfg.
     and_then (probability_of cfg) (\<lambda>p.
     and_then (weights_of types as) (\<lambda>ps. Inr (p # ps))))"

definition select_anomaly :: "generator \<Rightarrow> string gen" where
  "select_anomaly self =
     (let anomalies = dict_keys (anomaly_types self)
      in prog_bind (prog_lift (weights_of (anomaly_types self) anomalies)) (\<lambda>weights.
         prog_bind (random_choices anomalies weights) (\<lambda>chosen.
         prog_lift (list_iloc chosen 0))))"

text \<open>A \<^verbatim>\<open>datetime\<close> is represented by its ISO rendering.\<close>

datatype datetime = Datetime (isoformat: string)

text \<open>Python truth of an optional string: \<^verbatim>\<open>None\<close> and the empty string are false.\<close>

fun truthy :: "string option \<Rightarrow> bool" where
  "truthy None = False"
| "truthy (Some s) = (s \<noteq> [])"

text \<open>Source lines 71 to 74: whether the reading is anomalous, and of which type. The
  15 percent trial is only run when no anomaly is forced (\<^verbatim>\<open>or\<close> short-circuits), and a
  type is only selected when the forced one is not true in Python's sense.\<close>

definition choose_anomaly :: "generator \<Rightarrow> string option \<Rightarrow> (bool \<times> string option) gen" where
  "choose_anomaly self force_anomaly =
     prog_bind (if force_anomaly \<noteq> None then prog_return True else should_trigger_anomaly)
       (\<lambda>is_anomaly.
     prog_bind (if truthy force_anomaly then prog_return force_anomaly
               else if is_anomaly
                    then prog_bind (select_anomaly self) (\<lambda>a. prog_return (Some a))
                    else prog_return None)
       (\<lambda>anomaly_type. prog_return (is_anomaly, anomaly_type)))"

text \<open>Source lines 77 to 87: the base reading.\<close>

definition base_reading :: "generator \<Rightarrow> datetime \<Rightarrow> (string \<times> pyval) list gen" where
  "base_reading self timestamp =
     prog_bind (prog_lift (dict_getitem (normal_ranges self) ''heart_rate'')) (\<lambda>r1.
     prog_bind (randint_range r1) (\<lambda>heart_rate.
     prog_bind (prog_lift (dict_getitem (normal_ranges self) ''spo2'')) (\<lambda>r2.
     prog_bind (uniform_range r2) (\<lambda>spo2.
     prog_bind (prog_lift (dict_getitem (normal_ranges self) ''temperature'')) (\<lambda>r3.
     prog_bind (uniform_range r3) (\<lambda>temperature.
     prog_bind (prog_lift (dict_getitem (normal_ranges self) ''systolic_bp'')) (\<lambda>r4.
     prog_bind (randint_range r4) (\<lambda>systolic_bp.
     prog_bind (prog_lift (dict_getitem (normal_ranges self) ''diastolic_bp'')) (\<lambda>r5.
     prog_bind (randint_range r5) (\<lambda>diastolic_bp.
     prog_bind (prog_lift (dict_getitem (normal_ranges self) ''steps'')) (\<lambda>r6.
     prog_bind (randint_range r6) (\<lambda>steps.
     prog_bind (prog_lift (dict_getitem (normal_ranges self) ''stress_level'')) (\<lambda>r7.
     prog_bind (randint_range r7) (\<lambda>stress_level.
     prog_bind (prog_lift (dict_getitem (normal_ranges self) ''sleep_hours'')) (\<lambda>r8.
     prog_bind (uniform_range r8) (\<lambda>sleep_hours.
     prog_return [(''timestamp'', PStr (isoformat timestamp)),
                 (''heart_rate'', heart_rate),
                 (''spo2'', spo2),
                 (''temperature'', temperature),
                 (''systolic_bp'', systolic_bp),
                 (''diastolic_bp'', diastolic_bp),
                 (''steps'', steps),
                 (''stress_level'', stress_level),
                 (''sleep_hours'', sleep_hours)]))))))))))))))))"

text \<open>Source lines 93 to 98: the loop over the items of the anomaly configuration.
  \<^verbatim>\<open>isinstance(value_range[0], int)\<close> is the case distinction on the range; subscripting
  a float raises \<^verbatim>\<open>TypeError\<close>.\<close>

fun apply_anomaly :: "(string \<times> cfgval) list \<Rightarrow> (string \<times> pyval) list \<Rightarrow> (string \<times> pyval) list gen" where
  "apply_anomaly [] data = prog_return data"
| "apply_anomaly ((metric, value_range) # items) data =
     (if metric \<noteq> ''probability''
      then (case value_range of
              Prob p \<Rightarrow> prog_lift (Inl TypeError)
            | Range (IntRange a b) \<Rightarrow>
                prog_bind (randint_range (IntRange a b)) (\<lambda>v.
                  apply_anomaly items (dict_setitem data metric v))
            | Range (FloatRange a b) \<Rightarrow>
                prog_bind (uniform_range (FloatRange a b)) (\<lambda>v.
                  apply_anomaly items (dict_setitem data metric v)))
      else apply_anomaly items data)"

text \<open>\<^verbatim>\<open>generate_reading\<close>. The argument \<open>now\<close> is what \<^verbatim>\<open>datetime.now()\<close> returns.\<close>

definition generate_reading ::
  "generator \<Rightarrow> datetime \<Rightarrow> datetime option \<Rightarrow> string option \<Rightarrow> (string \<times> pyval) list gen" where
  "generate_reading self now timestamp force_anomaly =
     (let timestamp = (case timestamp of None \<Rightarrow> now | Some t \<Rightarrow> t)
      in prog_bind (choose_anomaly self force_anomaly) (\<lambda>(is_anomaly, anomaly_type).
         prog_bind (base_reading self timestamp) (\<lambda>data.
         if is_anomaly \<and> truthy anomaly_type
         then prog_bind (prog_lift (dict_getitem (anomaly_types self) (the anomaly_type)))
                (\<lambda>anomaly_config. apply_anomaly anomaly_config data)
         else prog_return data)))"

section \<open>Series of readings\<close>

text \<open>A reading as the generator writes it (\<^verbatim>\<open>save_to_csv\<close>) and as the analyzer's
  callers load it: the timestamp in ISO form and one number for each of the eight
  metrics. The generator writes five metrics as integers and \<^verbatim>\<open>temperature\<close> and
  \<^verbatim>\<open>sleep_hours\<close> as floats; \<^verbatim>\<open>spo2\<close> is a float from the normal range and an integer from
  the range of \<^verbatim>\<open>low_oxygen\<close>, so its cell is of either form. A series is a list of
  readings in time order.\<close>

datatype cell = IntCell int | FloatCell real

fun cell_value :: "cell \<Rightarrow> real" where
  "cell_value (IntCell n) = real_of_int n"
| "cell_value (FloatCell x) = x"

fun is_int_cell :: "cell \<Rightarrow> bool" where
  "is_int_cell (IntCell n) = True"
| "is_int_cell (FloatCell x) = False"

fun int_cells :: "cell list \<Rightarrow> int list" where
  "int_cells [] = []"
| "int_cells (IntCell n # cs) = n # int_cells cs"
| "int_cells (FloatCell x # cs) = int_cells cs"

text \<open>The dtype that \<^verbatim>\<open>pd.read_csv\<close> infers for a column of numbers: \<^verbatim>\<open>int64\<close> when
  every cell is written as an integer, \<^verbatim>\<open>float64\<close> as soon as one is not.\<close>

definition number_column :: "cell list \<Rightarrow> series" where
  "number_column cs =
     (if list_all is_int_cell cs then IntCol (int_cells cs)
      else FloatCol (map cell_value cs))"

record reading =
  timestamp :: string
  heart_rate :: int
  spo2 :: cell
  temperature :: real
  systolic_bp :: int
  diastolic_bp :: int
  steps :: int
  stress_level :: int
  sleep_hours :: real

text \<open>The frame that \<^verbatim>\<open>load_health_data\<close> (\<^verbatim>\<open>pd.read_csv\<close>) returns for a table with one
  row per reading and the generator's nine columns. On a table without rows the columns
  have no cell from which a dtype could be inferred; the function fails on it at line 21,
  before the dtype of a column matters.\<close>

definition load_health_data :: "reading list \<Rightarrow> dataframe" where
  "load_health_data rs =
     \<lparr> index_len = length rs,
       columns = [(''timestamp'', StrCol (map timestamp rs)),
                  (''heart_rate'', IntCol (map heart_rate rs)),
                  (''spo2'', number_column (map spo2 rs)),
                  (''temperature'', FloatCol (map temperature rs)),
                  (''systolic_bp'', IntCol (map systolic_bp rs)),
                  (''diastolic_bp'', IntCol (map diastolic_bp rs)),
                  (''steps'', IntCol (map steps rs)),
                  (''stress_level'', IntCol (map stress_level rs)),
                  (''sleep_hours'', FloatCol (map sleep_hours rs))] \<rparr>"

text \<open>Reading a key of a dictionary value, for stating properties of a report.\<close>

fun pyval_get :: "pyval \<Rightarrow> string \<Rightarrow> pyval option" where
  "pyval_get (PDict d) k = map_of d k"
| "pyval_get _ k = None"

section \<open>The statistics engine over a store of objects\<close>

text \<open>
  Python passes \<^verbatim>\<open>df\<close> by reference, and a \<^verbatim>\<open>DataFrame\<close> is a mutable object. To be
  able to say what happens to the caller's frame, the frames live in a store, addressed
  by position, and a program on frames threads the store. A frame can be read, a new
  frame can be allocated, and the frame at an address can be overwritten.
\<close>

type_synonym store = "dataframe list"

definition read_frame :: "nat \<Rightarrow> (dataframe, store) prog" where
  "read_frame r st = (Inr (st ! r), st)"

definition new_frame :: "dataframe \<Rightarrow> (nat, store) prog" where
  "new_frame df st = (Inr (length st), st @ [df])"

definition write_frame :: "nat \<Rightarrow> dataframe \<Rightarrow> (unit, store) prog" where
  "write_frame r df st = (Inr (), st[r := df])"

text \<open>The operations of pandas on a frame object. \<^verbatim>\<open>len(df)\<close> and \<^verbatim>\<open>df[name]\<close> read
  the frame; \<^verbatim>\<open>df[mask]\<close> allocates a frame with the selected rows and returns its
  address; \<^verbatim>\<open>df[name] = column\<close> writes into the frame itself.\<close>

definition len_obj :: "nat \<Rightarrow> (nat, store) prog" where
  "len_obj r = prog_bind (read_frame r) (\<lambda>df. prog_return (df_len df))"

definition getitem_obj :: "nat \<Rightarrow> string \<Rightarrow> (series, store) prog" where
  "getitem_obj r name = prog_bind (read_frame r) (\<lambda>df. prog_lift (df_getitem df name))"

definition mask_obj :: "nat \<Rightarrow> bool list \<Rightarrow> (nat, store) prog" where
  "mask_obj r bs = prog_bind (read_frame r) (\<lambda>df. new_frame (df_mask df bs))"

definition setitem_obj :: "nat \<Rightarrow> string \<Rightarrow> series \<Rightarrow> (unit, store) prog" where
  "setitem_obj r name col =
     prog_bind (read_frame r) (\<lambda>df.
       write_frame r (df \<lparr> columns := dict_setitem (columns df) name col \<rparr>))"

text \<open>A statement of the repository that does write into a frame: in \<^verbatim>\<open>doctor_chat.py\<close>
  (line 276) the caller of the sibling summary runs
  \<^verbatim>\<open>supabase_df["person_id"] = patient_id\<close>, which fills a column with one string.\<close>

definition set_person_id :: "nat \<Rightarrow> string \<Rightarrow> (unit, store) prog" where
  "set_person_id r patient_id =
     prog_bind (len_obj r) (\<lambda>n. setitem_obj r ''person_id'' (StrCol (replicate n patient_id)))"

text \<open>\<^verbatim>\<open>analyze_data_statistics\<close> on the frame at address \<open>r\<close>, operation by operation as
  above; the reductions and comparisons are calls on the column that \<^verbatim>\<open>df[name]\<close>
  returned.\<close>

definition heart_rate_entry_obj :: "nat \<Rightarrow> (pyval, store) prog" where
  "heart_rate_entry_obj r =
     prog_bind (getitem_obj r ''heart_rate'') (\<lambda>c1.
     prog_bind (prog_lift (series_mean c1)) (\<lambda>m.
     prog_bind (prog_lift (py_round1 m)) (\<lambda>avg.
     prog_bind (getitem_obj r ''heart_rate'') (\<lambda>c2.
     prog_bind (getitem_obj r ''heart_rate'') (\<lambda>c3.
     prog_bind (getitem_obj r ''heart_rate'') (\<lambda>c4.
     prog_bind (prog_lift (series_std c4)) (\<lambda>s.
     prog_bind (prog_lift (py_round1 s)) (\<lambda>std.
     prog_return (PDict [(''avg'', avg), (''min'', series_min c2), (''max'', series_max c3),
                         (''std'', std)])))))))))"

definition avg_min_max_entry_obj :: "nat \<Rightarrow> string \<Rightarrow> (pyval, store) prog" where
  "avg_min_max_entry_obj r name =
     prog_bind (getitem_obj r name) (\<lambda>c1.
     prog_bind (prog_lift (series_mean c1)) (\<lambda>m.
     prog_bind (prog_lift (py_round1 m)) (\<lambda>avg.
     prog_bind (getitem_obj r name) (\<lambda>c2.
     prog_bind (prog_lift (py_round1 (series_min c2))) (\<lambda>mn.
     prog_bind (getitem_obj r name) (\<lambda>c3.
     prog_bind (prog_lift (py_round1 (series_max c3))) (\<lambda>mx.
     prog_return (PDict [(''avg'', avg), (''min'', mn), (''max'', mx)]))))))))"

definition blood_pressure_entry_obj :: "nat \<Rightarrow> (pyval, store) prog" where
  "blood_pressure_entry_obj r =
     prog_bind (getitem_obj r ''systolic_bp'') (\<lambda>s1.
     prog_bind (prog_lift (series_mean s1)) (\<lambda>sm.
     prog_bind (prog_lift (py_round1 sm)) (\<lambda>systolic_avg.
     prog_bind (getitem_obj r ''diastolic_bp'') (\<lambda>d1.
     prog_bind (prog_lift (series_mean d1)) (\<lambda>dm.
     prog_bind (prog_lift (py_round1 dm)) (\<lambda>diastolic_avg.
     prog_bind (getitem_obj r ''systolic_bp'') (\<lambda>s2.
     prog_bind (getitem_obj r ''systolic_bp'') (\<lambda>s3.
     prog_bind (getitem_obj r ''diastolic_bp'') (\<lambda>d2.
     prog_bind (getitem_obj r ''diastolic_bp'') (\<lambda>d3.
     prog_return
       (PDict [(''systolic_avg'', systolic_avg), (''diastolic_avg'', diastolic_avg),
               (''systolic_range'', PFmt [series_min s2, PStr ''-'', series_max s3]),
               (''diastolic_range'', PFmt [series_min d2, PStr ''-'', series_max d3])
              ])))))))))))"

definition stress_level_entry_obj :: "nat \<Rightarrow> (pyval, store) prog" where
  "stress_level_entry_obj r =
     prog_bind (getitem_obj r ''stress_level'') (\<lambda>c1.
     prog_bind (prog_lift (series_mean c1)) (\<lambda>m.
     prog_bind (prog_lift (py_round1 m)) (\<lambda>avg.
     prog_bind (getitem_obj r ''stress_level'') (\<lambda>c2.
     prog_return (PDict [(''avg'', avg), (''max'', series_max c2)])))))"

definition stats_literal_obj :: "nat \<Rightarrow> ((string \<times> pyval) list, store) prog" where
  "stats_literal_obj r =
     prog_bind (len_obj r) (\<lambda>total_readings.
     prog_bind (getitem_obj r ''timestamp'') (\<lambda>t1.
     prog_bind (prog_lift (iloc t1 0)) (\<lambda>first_ts.
     prog_bind (getitem_obj r ''timestamp'') (\<lambda>t2.
     prog_bind (prog_lift (iloc t2 (- 1))) (\<lambda>last_ts.
     prog_bind (heart_rate_entry_obj r) (\<lambda>hr.
     prog_bind (avg_min_max_entry_obj r ''spo2'') (\<lambda>ox.
     prog_bind (avg_min_max_entry_obj r ''temperature'') (\<lambda>temp.
     prog_bind (blood_pressure_entry_obj r) (\<lambda>bp.
     prog_bind (stress_level_entry_obj r) (\<lambda>stress.
     prog_bind (getitem_obj r ''steps'') (\<lambda>st.
     prog_return [(''total_readings'', PInt (int total_readings)),
                  (''time_span'', PFmt [first_ts, PStr '' to '', last_ts]),
                  (''heart_rate'', hr),
                  (''spo2'', ox),
                  (''temperature'', temp),
                  (''blood_pressure'', bp),
                  (''stress_level'', stress),
                  (''total_steps'', series_sum st)])))))))))))"

definition count_gt_obj :: "nat \<Rightarrow> string \<Rightarrow> real \<Rightarrow> (int, store) prog" where
  "count_gt_obj r name c =
     prog_bind (getitem_obj r name) (\<lambda>col.
     prog_bind (prog_lift (series_gt col c)) (\<lambda>bs.
     prog_bind (mask_obj r bs) (\<lambda>selected.
     prog_bind (len_obj selected) (\<lambda>n.
     prog_return (int n)))))"

definition count_lt_obj :: "nat \<Rightarrow> string \<Rightarrow> real \<Rightarrow> (int, store) prog" where
  "count_lt_obj r name c =
     prog_bind (getitem_obj r name) (\<lambda>col.
     prog_bind (prog_lift (series_lt col c)) (\<lambda>bs.
     prog_bind (mask_obj r bs) (\<lambda>selected.
     prog_bind (len_obj selected) (\<lambda>n.
     prog_return (int n)))))"

definition anomalies_dict_obj :: "nat \<Rightarrow> ((string \<times> int) list, store) prog" where
  "anomalies_dict_obj r =
     prog_bind (count_gt_obj r ''heart_rate'' 120) (\<lambda>high_heart_rate.
     prog_bind (count_lt_obj r ''heart_rate'' 60) (\<lambda>low_heart_rate.
     prog_bind (count_lt_obj r ''spo2'' 95) (\<lambda>low_oxygen.
     prog_bind (count_gt_obj r ''temperature'' 37.2) (\<lambda>high_temp.
     prog_bind (count_lt_obj r ''temperature'' 36.1) (\<lambda>low_temp.
     prog_bind (count_gt_obj r ''systolic_bp'' 130) (\<lambda>high_bp.
     prog_bind (count_lt_obj r ''systolic_bp'' 110) (\<lambda>low_bp.
     prog_bind (count_gt_obj r ''stress_level'' 6) (\<lambda>high_stress.
     prog_return [(''high_heart_rate'', high_heart_rate),
                  (''low_heart_rate'', low_heart_rate),
                  (''low_oxygen'', low_oxygen),
                  (''high_temp'', high_temp),
                  (''low_temp'', low_temp),
                  (''high_bp'', high_bp),
                  (''low_bp'', low_bp),
                  (''high_stress'', high_stress)]))))))))"

definition analyze_data_statistics_obj :: "nat \<Rightarrow> (pyval, store) prog" where
  "analyze_data_statistics_obj r =
     prog_bind (stats_literal_obj r) (\<lambda>stats.
     prog_bind (anomalies_dict_obj r) (\<lambda>anomalies.
     prog_return (finish_stats stats anomalies)))"

text \<open>A program on the store \<^emph>\<open>only reads\<close> the frame at address \<open>r\<close>, computing \<open>f\<close> of it,
  when on every store that holds \<open>r\<close> it returns \<open>f\<close> of that frame and leaves a store
  that extends the one it started from: no frame that was there is changed.\<close>

definition reads_only :: "nat \<Rightarrow> ('a, store) prog \<Rightarrow> (dataframe \<Rightarrow> error + 'a) \<Rightarrow> bool" where
  "reads_only r p f = (\<forall>st. r < length st \<longrightarrow> (\<exists>ext. p st = (f (st ! r), st @ ext)))"

text \<open>Python's \<^verbatim>\<open>==\<close> between two values that were built separately. Numbers are equal
  when their values are, and \<^verbatim>\<open>nan\<close> equals nothing, itself included. Two dictionaries
  are equal when they have the same keys with equal values, in whatever order. A
  \<^verbatim>\<open>float64\<close> that the library computed equals the result of the same call on the same
  cells; whether it equals any other number the model does not say, and \<open>py_eq\<close> is
  false there. Two f-strings are compared by their pieces.\<close>

fun py_eq :: "pyval \<Rightarrow> pyval \<Rightarrow> bool" where
  "py_eq (PInt m) (PInt n) = (m = n)"
| "py_eq (PInt m) (PFloat y) = (real_of_int m = y)"
| "py_eq (PFloat x) (PInt n) = (x = real_of_int n)"
| "py_eq (PFloat x) (PFloat y) = (x = y)"
| "py_eq (PNp a) (PNp b) = (a = b)"
| "py_eq (PStr s) (PStr t) = (s = t)"
| "py_eq (PFmt xs) (PFmt ys) = (xs = ys)"
| "py_eq (PDict d) (PDict e) =
     (length d = length e \<and>
      list_all (\<lambda>kv. case map_of e (fst kv) of None \<Rightarrow> False | Some w \<Rightarrow> py_eq (snd kv) w) d)"
| "py_eq v w = False"

section \<open>Notions used to state the properties\<close>

subsection \<open>Reports of series\<close>

text \<open>An entry of the report of a series, and one of its anomaly counters; \<open>None\<close>
  when the function raises or the key is not in the dictionary.\<close>

definition report_entry :: "reading list \<Rightarrow> string \<Rightarrow> pyval option" where
  "report_entry rs key =
     (case analyze_data_statistics (load_health_data rs) of
        Inl e \<Rightarrow> None
      | Inr stats \<Rightarrow> pyval_get stats key)"

definition report_count :: "reading list \<Rightarrow> string \<Rightarrow> int option" where
  "report_count rs rule =
     (case report_entry rs ''anomalies'' of
        Some (PDict counters) \<Rightarrow> (case map_of counters rule of Some (PInt n) \<Rightarrow> Some n | _ \<Rightarrow> None)
      | _ \<Rightarrow> None)"

text \<open>The number of readings of a series that satisfy a condition, and the eight
  conditions that the \<^verbatim>\<open>anomalies\<close> literal of the source counts (lines 53 to 60), read
  row by row.\<close>

definition rule_count :: "(reading \<Rightarrow> bool) \<Rightarrow> reading list \<Rightarrow> int" where
  "rule_count P rs = int (length (filter P rs))"

definition counted_rules :: "(string \<times> (reading \<Rightarrow> bool)) list" where
  "counted_rules =
     [(''high_heart_rate'', \<lambda>r. 120 < heart_rate r),
      (''low_heart_rate'', \<lambda>r. heart_rate r < 60),
      (''low_oxygen'', \<lambda>r. cell_value (spo2 r) < 95),
      (''high_temp'', \<lambda>r. 37.2 < temperature r),
      (''low_temp'', \<lambda>r. temperature r < 36.1),
      (''high_bp'', \<lambda>r. 130 < systolic_bp r),
      (''low_bp'', \<lambda>r. systolic_bp r < 110),
      (''high_stress'', \<lambda>r. 6 < stress_level r)]"

definition counted_by_code :: "reading \<Rightarrow> int" where
  "counted_by_code r = int (length (filter (\<lambda>(name, P). P r) counted_rules))"

text \<open>The rule table of the specification (section 4.2), in its words: ten rules. The
  claims that speak of the detection rules and of the per-rule counts mean these. The
  number of rule conditions that a reading satisfies, and the sum of all per-rule counts
  of a series.\<close>

definition spec_rule_table :: "(string \<times> (reading \<Rightarrow> bool)) list" where
  "spec_rule_table =
     [(''high_heart_rate'', \<lambda>r. heart_rate r > 120),
      (''low_heart_rate'', \<lambda>r. heart_rate r < 60),
      (''low_oxygen'', \<lambda>r. cell_value (spo2 r) < 95),
      (''high_temp'', \<lambda>r. temperature r > 37.2),
      (''low_temp'', \<lambda>r. temperature r < 36.1),
      (''high_bp'', \<lambda>r. systolic_bp r > 130),
      (''low_bp'', \<lambda>r. systolic_bp r < 110),
      (''high_stress'', \<lambda>r. stress_level r > 6),
      (''poor_sleep'', \<lambda>r. sleep_hours r < 6.5),
      (''excessive_sleep'', \<lambda>r. sleep_hours r > 9.0)]"

definition spec_rules_satisfied :: "reading \<Rightarrow> int" where
  "spec_rules_satisfied r = int (length (filter (\<lambda>(name, P). P r) spec_rule_table))"

definition spec_total :: "reading list \<Rightarrow> int" where
  "spec_total rs = (\<Sum>(name, P)\<leftarrow>spec_rule_table. rule_count P rs)"

text \<open>The cells of a column of a series as real numbers.\<close>

definition ints :: "(reading \<Rightarrow> int) \<Rightarrow> reading list \<Rightarrow> real list" where
  "ints f rs = map (\<lambda>r. real_of_int (f r)) rs"

definition spo2_cells :: "reading list \<Rightarrow> real list" where
  "spo2_cells rs = map (\<lambda>r. cell_value (spo2 r)) rs"

text \<open>The extremes of the \<^verbatim>\<open>spo2\<close> column as the report holds them: the integer itself
  when the column is \<^verbatim>\<open>int64\<close>, the cell passed through \<^verbatim>\<open>round\<close> when it is
  \<^verbatim>\<open>float64\<close>.\<close>

definition spo2_min :: "reading list \<Rightarrow> pyval" where
  "spo2_min rs =
     (if list_all is_int_cell (map spo2 rs) then PInt (Min (set (int_cells (map spo2 rs))))
      else PNp (NpRound1 (NpCell (Min (set (spo2_cells rs))))))"

definition spo2_max :: "reading list \<Rightarrow> pyval" where
  "spo2_max rs =
     (if list_all is_int_cell (map spo2 rs) then PInt (Max (set (int_cells (map spo2 rs))))
      else PNp (NpRound1 (NpCell (Max (set (spo2_cells rs))))))"

subsection \<open>Well-formed frames\<close>

fun series_len :: "series \<Rightarrow> nat" where
  "series_len (IntCol xs) = length xs"
| "series_len (FloatCol xs) = length xs"
| "series_len (StrCol xs) = length xs"

fun numeric :: "series \<Rightarrow> bool" where
  "numeric (IntCol xs) = True"
| "numeric (FloatCol xs) = True"
| "numeric (StrCol xs) = False"

definition metric_columns :: "string list" where
  "metric_columns = [''heart_rate'', ''spo2'', ''temperature'', ''systolic_bp'', ''diastolic_bp'',
                     ''steps'', ''stress_level'', ''sleep_hours'']"

text \<open>A frame is well formed when its column names are distinct, every column has one
  cell per row, and the columns that carry a metric are numeric.\<close>

definition well_formed :: "dataframe \<Rightarrow> bool" where
  "well_formed df =
     (distinct (dict_keys (columns df)) \<and>
      (\<forall>(name, col) \<in> set (columns df).
         series_len col = index_len df \<and> (name \<in> set metric_columns \<longrightarrow> numeric col)))"

definition has_column :: "dataframe \<Rightarrow> string \<Rightarrow> bool" where
  "has_column df name = (name \<in> set (dict_keys (columns df)))"

text \<open>The columns that the function subscripts, in the order of their first use, and the
  exception that the first failing subscript raises.\<close>

definition read_columns :: "string list" where
  "read_columns = [''timestamp'', ''heart_rate'', ''spo2'', ''temperature'', ''systolic_bp'',
                   ''diastolic_bp'', ''stress_level'', ''steps'']"

definition first_failure :: "dataframe \<Rightarrow> error option" where
  "first_failure df =
     (if \<not> has_column df ''timestamp'' then Some (KeyError ''timestamp'')
      else if index_len df = 0 then Some IndexError
      else case find (\<lambda>c. \<not> has_column df c) (tl read_columns)
           of Some c \<Rightarrow> Some (KeyError c) | None \<Rightarrow> None)"

subsection \<open>Ranges of generated values\<close>

text \<open>The keys of a reading, in the order of the \<^verbatim>\<open>data\<close> literal.\<close>

definition reading_keys :: "string list" where
  "reading_keys = [''timestamp'', ''heart_rate'', ''spo2'', ''temperature'', ''systolic_bp'',
                   ''diastolic_bp'', ''steps'', ''stress_level'', ''sleep_hours'']"

definition metric_names :: "string list" where
  "metric_names = dict_keys (normal_ranges SmartWatchDataGenerator)"

text \<open>A value is of integer kind when it comes from \<^verbatim>\<open>randint\<close> and of continuous kind
  when it comes from \<^verbatim>\<open>round(uniform(...), 1)\<close>. For a normal range the source fixes the
  call per metric (lines 79 to 86); for an override range the call follows the type of
  the bounds (line 95).\<close>

datatype kind = Integer | Continuous

definition one_decimal :: "real \<Rightarrow> bool" where
  "one_decimal x = (of_int \<lfloor>x * 10\<rfloor> = x * 10)"

fun range_lo :: "range \<Rightarrow> real" where
  "range_lo (IntRange a b) = real_of_int a"
| "range_lo (FloatRange a b) = a"

fun range_hi :: "range \<Rightarrow> real" where
  "range_hi (IntRange a b) = real_of_int b"
| "range_hi (FloatRange a b) = b"

fun in_range :: "kind \<Rightarrow> range \<Rightarrow> pyval \<Rightarrow> bool" where
  "in_range Integer r (PInt n) = (range_lo r \<le> real_of_int n \<and> real_of_int n \<le> range_hi r)"
| "in_range Continuous r (PFloat x) = (range_lo r \<le> x \<and> x \<le> range_hi r \<and> one_decimal x)"
| "in_range k r v = False"

definition normal_kind :: "string \<Rightarrow> kind" where
  "normal_kind m = (if m \<in> {''spo2'', ''temperature'', ''sleep_hours''} then Continuous else Integer)"

fun override_kind :: "range \<Rightarrow> kind" where
  "override_kind (IntRange a b) = Integer"
| "override_kind (FloatRange a b) = Continuous"

definition normal_ok :: "string \<Rightarrow> pyval \<Rightarrow> bool" where
  "normal_ok m v =
     (case map_of (normal_ranges SmartWatchDataGenerator) m of
        None \<Rightarrow> False
      | Some r \<Rightarrow> in_range (normal_kind m) r v)"

definition override_of :: "string \<Rightarrow> string \<Rightarrow> range option" where
  "override_of a m =
     (case map_of (anomaly_types SmartWatchDataGenerator) a of
        None \<Rightarrow> None
      | Some cfg \<Rightarrow> (case map_of cfg m of Some (Range r) \<Rightarrow> Some r | _ \<Rightarrow> None))"

definition override_ok :: "string \<Rightarrow> string \<Rightarrow> pyval \<Rightarrow> bool" where
  "override_ok a m v =
     (case override_of a m of None \<Rightarrow> False | Some r \<Rightarrow> in_range (override_kind r) r v)"

text \<open>Where the value of metric \<open>m\<close> comes from when the profile \<open>chosen\<close> is applied:
  from the override range if the profile has one for \<open>m\<close>, from the normal range
  otherwise.\<close>

definition sampled_from :: "string option \<Rightarrow> string \<Rightarrow> pyval \<Rightarrow> bool" where
  "sampled_from chosen m v =
     (case chosen of
        None \<Rightarrow> normal_ok m v
      | Some a \<Rightarrow> (case override_of a m of None \<Rightarrow> normal_ok m v | Some r \<Rightarrow> override_ok a m v))"

definition valid_reading :: "string option \<Rightarrow> (string \<times> pyval) list \<Rightarrow> bool" where
  "valid_reading chosen data =
     (dict_keys data = reading_keys \<and>
      (\<forall>m \<in> set metric_names. \<exists>v. map_of data m = Some v \<and> sampled_from chosen m v))"

text \<open>The values that \<^verbatim>\<open>randint(a, b)\<close> and \<^verbatim>\<open>round(uniform(a, b), 1)\<close> return on
  the next draw of a source.\<close>

definition randint_value :: "int \<Rightarrow> int \<Rightarrow> rng \<Rightarrow> int" where
  "randint_value a b g = a + int (shd g mod nat (b - a + 1))"

definition uniform_value :: "real \<Rightarrow> real \<Rightarrow> rng \<Rightarrow> real" where
  "uniform_value a b g = round1 (a + (b - a) * (real (shd g mod 2 ^ 53) / 2 ^ 53))"

section \<open>Example inputs\<close>

text \<open>Readings and frames at which the properties below are evaluated.\<close>

definition calm :: reading where
  "calm = \<lparr> timestamp = ''2025-01-01T08:00:00'', heart_rate = 70, spo2 = FloatCell 98,
             temperature = 36.6,
             systolic_bp = 120, diastolic_bp = 80, steps = 30, stress_level = 3,
             sleep_hours = 7.5 \<rparr>"

definition strained :: reading where
  "strained = \<lparr> timestamp = ''2025-01-01T08:05:00'', heart_rate = 90, spo2 = FloatCell 97.4,
                 temperature = 36.8, systolic_bp = 135, diastolic_bp = 88, steps = 10,
                 stress_level = 8, sleep_hours = 7 \<rparr>"

definition restless :: reading where
  "restless = calm \<lparr> timestamp := ''2025-01-01T08:20:00'', systolic_bp := 135, sleep_hours := 4 \<rparr>"

definition short_sleeper :: reading where
  "short_sleeper = calm \<lparr> timestamp := ''2025-01-01T08:10:00'', sleep_hours := 4 \<rparr>"

definition long_sleeper :: reading where
  "long_sleeper = calm \<lparr> timestamp := ''2025-01-01T08:15:00'', sleep_hours := 10.5 \<rparr>"

definition without_column :: "string \<Rightarrow> dataframe \<Rightarrow> dataframe" where
  "without_column name df = df \<lparr> columns := filter (\<lambda>(n, col). n \<noteq> name) (columns df) \<rparr>"

section \<open>Counting and reductions on loaded series\<close>

lemma length_select:
  "length ys = length bs \<Longrightarrow> length (select bs ys) = length (filter (\<lambda>b. b) bs)"
proof (induction bs arbitrary: ys)
  case Nil
  then show ?case by (simp add: select_def)
next
  case (Cons b bs)
  then obtain y ys' where "ys = y # ys'" by (cases ys) auto
  with Cons show ?case by (simp add: select_def)
qed

lemma df_len_mask:
  "length bs = index_len df \<Longrightarrow> df_len (df_mask df bs) = length (filter (\<lambda>b. b) bs)"
  by (simp add: df_len_def df_mask_def length_select)

lemma list_min_Min: "xs \<noteq> [] \<Longrightarrow> list_min xs = Some (Min (set xs))"
proof (cases xs)
  case Nil
  then show "xs \<noteq> [] \<Longrightarrow> ?thesis" by simp
next
  case (Cons a list)
  have "fold min list a = Min (set (a # list))" by (rule Min.set_eq_fold[symmetric])
  with Cons show ?thesis by simp
qed

lemma list_max_Max: "xs \<noteq> [] \<Longrightarrow> list_max xs = Some (Max (set xs))"
proof (cases xs)
  case Nil
  then show "xs \<noteq> [] \<Longrightarrow> ?thesis" by simp
next
  case (Cons a list)
  have "fold max list a = Max (set (a # list))" by (rule Max.set_eq_fold[symmetric])
  with Cons show ?thesis by simp
qed

lemma count_gt_int_load:
  assumes "map_of (columns (load_health_data rs)) name = Some (IntCol (map f rs))"
  shows "count_gt (load_health_data rs) name (real_of_int c) = Inr (rule_count (\<lambda>r. c < f r) rs)"
proof -
  have "length (map (\<lambda>x. real_of_int c < real_of_int x) (map f rs)) = index_len (load_health_data rs)"
    by (simp add: load_health_data_def)
  from df_len_mask[OF this] assms show ?thesis
    by (simp add: count_gt_def df_getitem_def dict_getitem_def and_then_def rule_count_def
        filter_map o_def)
qed

lemma count_lt_int_load:
  assumes "map_of (columns (load_health_data rs)) name = Some (IntCol (map f rs))"
  shows "count_lt (load_health_data rs) name (real_of_int c) = Inr (rule_count (\<lambda>r. f r < c) rs)"
proof -
  have "length (map (\<lambda>x. real_of_int x < real_of_int c) (map f rs)) = index_len (load_health_data rs)"
    by (simp add: load_health_data_def)
  from df_len_mask[OF this] assms show ?thesis
    by (simp add: count_lt_def df_getitem_def dict_getitem_def and_then_def rule_count_def
        filter_map o_def)
qed

lemma count_gt_float_load:
  assumes "map_of (columns (load_health_data rs)) name = Some (FloatCol (map f rs))"
  shows "count_gt (load_health_data rs) name c = Inr (rule_count (\<lambda>r. c < f r) rs)"
proof -
  have "length (map (\<lambda>x. c < x) (map f rs)) = index_len (load_health_data rs)"
    by (simp add: load_health_data_def)
  from df_len_mask[OF this] assms show ?thesis
    by (simp add: count_gt_def df_getitem_def dict_getitem_def and_then_def rule_count_def
        filter_map o_def)
qed

lemma count_lt_float_load:
  assumes "map_of (columns (load_health_data rs)) name = Some (FloatCol (map f rs))"
  shows "count_lt (load_health_data rs) name c = Inr (rule_count (\<lambda>r. f r < c) rs)"
proof -
  have "length (map (\<lambda>x. x < c) (map f rs)) = index_len (load_health_data rs)"
    by (simp add: load_health_data_def)
  from df_len_mask[OF this] assms show ?thesis
    by (simp add: count_lt_def df_getitem_def dict_getitem_def and_then_def rule_count_def
        filter_map o_def)
qed

lemma int_cells_values:
  "list_all is_int_cell cs \<Longrightarrow> map real_of_int (int_cells cs) = map cell_value cs"
proof (induction cs)
  case Nil
  then show ?case by simp
next
  case (Cons c cs)
  then show ?case by (cases c) simp_all
qed

lemma int_cells_length: "list_all is_int_cell cs \<Longrightarrow> length (int_cells cs) = length cs"
  using int_cells_values[of cs] by (metis length_map)

lemma series_lt_number_column:
  "series_lt (number_column cs) c = Inr (map (\<lambda>x. cell_value x < c) cs)"
proof (cases "list_all is_int_cell cs")
  case True
  have "map (\<lambda>x. real_of_int x < c) (int_cells cs) = map (\<lambda>x. x < c) (map real_of_int (int_cells cs))"
    by (simp add: o_def)
  also have "\<dots> = map (\<lambda>x. cell_value x < c) cs"
    unfolding int_cells_values[OF True] by (simp add: o_def)
  finally show ?thesis using True by (simp add: number_column_def)
next
  case False
  then show ?thesis by (simp add: number_column_def o_def)
qed

lemma count_lt_spo2_load:
  "count_lt (load_health_data rs) ''spo2'' c = Inr (rule_count (\<lambda>r. cell_value (spo2 r) < c) rs)"
proof -
  have "length (map (\<lambda>x. cell_value x < c) (map spo2 rs)) = index_len (load_health_data rs)"
    by (simp add: load_health_data_def)
  from df_len_mask[OF this] show ?thesis
    by (simp add: count_lt_def df_getitem_def dict_getitem_def and_then_def rule_count_def
        filter_map o_def load_health_data_def series_lt_number_column)
qed

lemma anomalies_dict_load:
  "anomalies_dict (load_health_data rs) =
     Inr [(''high_heart_rate'', rule_count (\<lambda>r. 120 < heart_rate r) rs),
          (''low_heart_rate'', rule_count (\<lambda>r. heart_rate r < 60) rs),
          (''low_oxygen'', rule_count (\<lambda>r. cell_value (spo2 r) < 95) rs),
          (''high_temp'', rule_count (\<lambda>r. 37.2 < temperature r) rs),
          (''low_temp'', rule_count (\<lambda>r. temperature r < 36.1) rs),
          (''high_bp'', rule_count (\<lambda>r. 130 < systolic_bp r) rs),
          (''low_bp'', rule_count (\<lambda>r. systolic_bp r < 110) rs),
          (''high_stress'', rule_count (\<lambda>r. 6 < stress_level r) rs)]"
proof -
  have 1: "count_gt (load_health_data rs) ''heart_rate'' 120 = Inr (rule_count (\<lambda>r. 120 < heart_rate r) rs)"
    using count_gt_int_load[of rs "''heart_rate''" heart_rate 120] by (simp add: load_health_data_def)
  have 2: "count_lt (load_health_data rs) ''heart_rate'' 60 = Inr (rule_count (\<lambda>r. heart_rate r < 60) rs)"
    using count_lt_int_load[of rs "''heart_rate''" heart_rate 60] by (simp add: load_health_data_def)
  have 3: "count_lt (load_health_data rs) ''spo2'' 95 = Inr (rule_count (\<lambda>r. cell_value (spo2 r) < 95) rs)"
    by (rule count_lt_spo2_load)
  have 4: "count_gt (load_health_data rs) ''temperature'' 37.2 = Inr (rule_count (\<lambda>r. 37.2 < temperature r) rs)"
    using count_gt_float_load[of rs "''temperature''" temperature "37.2"] by (simp add: load_health_data_def)
  have 5: "count_lt (load_health_data rs) ''temperature'' 36.1 = Inr (rule_count (\<lambda>r. temperature r < 36.1) rs)"
    using count_lt_float_load[of rs "''temperature''" temperature "36.1"] by (simp add: load_health_data_def)
  have 6: "count_gt (load_health_data rs) ''systolic_bp'' 130 = Inr (rule_count (\<lambda>r. 130 < systolic_bp r) rs)"
    using count_gt_int_load[of rs "''systolic_bp''" systolic_bp 130] by (simp add: load_health_data_def)
  have 7: "count_lt (load_health_data rs) ''systolic_bp'' 110 = Inr (rule_count (\<lambda>r. systolic_bp r < 110) rs)"
    using count_lt_int_load[of rs "''systolic_bp''" systolic_bp 110] by (simp add: load_health_data_def)
  have 8: "count_gt (load_health_data rs) ''stress_level'' 6 = Inr (rule_count (\<lambda>r. 6 < stress_level r) rs)"
    using count_gt_int_load[of rs "''stress_level''" stress_level 6] by (simp add: load_health_data_def)
  show ?thesis
    unfolding anomalies_dict_def 1 2 3 4 5 6 7 8 by (simp add: and_then_def)
qed

lemma heart_rate_entry_load:
  assumes "rs \<noteq> []"
  shows "heart_rate_entry (load_health_data rs) =
     Inr (PDict [(''avg'', PNp (NpRound1 (NpMean (ints heart_rate rs)))),
                 (''min'', PInt (Min (heart_rate ` set rs))),
                 (''max'', PInt (Max (heart_rate ` set rs))),
                 (''std'', if length rs \<le> 1 then PNaN
                           else PNp (NpRound1 (NpStd (ints heart_rate rs))))])"
  using assms list_min_Min[of "map heart_rate rs"] list_max_Max[of "map heart_rate rs"]
  by (simp add: heart_rate_entry_def load_health_data_def df_getitem_def dict_getitem_def
      and_then_def list_mean_def list_std_def ints_def o_def)

lemma avg_min_max_entry_load:
  assumes "rs \<noteq> []" and "map_of (columns (load_health_data rs)) name = Some (FloatCol (map f rs))"
  shows "avg_min_max_entry (load_health_data rs) name =
     Inr (PDict [(''avg'', PNp (NpRound1 (NpMean (map f rs)))),
                 (''min'', PNp (NpRound1 (NpCell (Min (f ` set rs))))),
                 (''max'', PNp (NpRound1 (NpCell (Max (f ` set rs)))))])"
  using assms list_min_Min[of "map f rs"] list_max_Max[of "map f rs"]
  by (simp add: avg_min_max_entry_def df_getitem_def dict_getitem_def
      and_then_def list_mean_def)

lemma spo2_entry_load:
  assumes "rs \<noteq> []"
  shows "avg_min_max_entry (load_health_data rs) ''spo2'' =
     Inr (PDict [(''avg'', PNp (NpRound1 (NpMean (spo2_cells rs)))),
                 (''min'', spo2_min rs),
                 (''max'', spo2_max rs)])"
proof (cases "list_all is_int_cell (map spo2 rs)")
  case True
  have col: "df_getitem (load_health_data rs) ''spo2'' = Inr (IntCol (int_cells (map spo2 rs)))"
    using True by (simp add: load_health_data_def df_getitem_def dict_getitem_def number_column_def)
  have ne: "int_cells (map spo2 rs) \<noteq> []"
    using int_cells_length[OF True] assms by auto
  have vals: "map real_of_int (int_cells (map spo2 rs)) = spo2_cells rs"
    using int_cells_values[OF True] by (simp add: spo2_cells_def o_def)
  have ne': "spo2_cells rs \<noteq> []" using assms by (simp add: spo2_cells_def)
  show ?thesis
    using True ne ne' list_min_Min[OF ne] list_max_Max[OF ne]
    by (simp add: avg_min_max_entry_def col and_then_def list_mean_def vals spo2_min_def
        spo2_max_def)
next
  case False
  have col: "df_getitem (load_health_data rs) ''spo2'' = Inr (FloatCol (spo2_cells rs))"
    using False
    by (simp add: load_health_data_def df_getitem_def dict_getitem_def number_column_def
        spo2_cells_def o_def)
  have ne: "spo2_cells rs \<noteq> []" using assms by (simp add: spo2_cells_def)
  show ?thesis
    using False ne list_min_Min[OF ne] list_max_Max[OF ne]
    by (simp add: avg_min_max_entry_def col and_then_def list_mean_def spo2_min_def
        spo2_max_def)
qed

lemma blood_pressure_entry_load:
  assumes "rs \<noteq> []"
  shows "blood_pressure_entry (load_health_data rs) =
     Inr (PDict [(''systolic_avg'', PNp (NpRound1 (NpMean (ints systolic_bp rs)))),
                 (''diastolic_avg'', PNp (NpRound1 (NpMean (ints diastolic_bp rs)))),
                 (''systolic_range'', PFmt [PInt (Min (systolic_bp ` set rs)), PStr ''-'',
                                            PInt (Max (systolic_bp ` set rs))]),
                 (''diastolic_range'', PFmt [PInt (Min (diastolic_bp ` set rs)), PStr ''-'',
                                             PInt (Max (diastolic_bp ` set rs))])])"
  using assms list_min_Min[of "map systolic_bp rs"] list_max_Max[of "map systolic_bp rs"]
    list_min_Min[of "map diastolic_bp rs"] list_max_Max[of "map diastolic_bp rs"]
  by (simp add: blood_pressure_entry_def load_health_data_def df_getitem_def dict_getitem_def
      and_then_def list_mean_def ints_def o_def)

lemma stress_level_entry_load:
  assumes "rs \<noteq> []"
  shows "stress_level_entry (load_health_data rs) =
     Inr (PDict [(''avg'', PNp (NpRound1 (NpMean (ints stress_level rs)))),
                 (''max'', PInt (Max (stress_level ` set rs)))])"
  using assms list_max_Max[of "map stress_level rs"]
  by (simp add: stress_level_entry_def load_health_data_def df_getitem_def dict_getitem_def
      and_then_def list_mean_def ints_def o_def)

lemma time_span_load:
  assumes "rs \<noteq> []"
  shows "and_then (df_getitem (load_health_data rs) ''timestamp'') (\<lambda>t. iloc t 0) = Inr (PStr (timestamp (hd rs)))"
    and "and_then (df_getitem (load_health_data rs) ''timestamp'') (\<lambda>t. iloc t (- 1)) = Inr (PStr (timestamp (last rs)))"
  using assms
  by (simp_all add: load_health_data_def df_getitem_def dict_getitem_def and_then_def list_iloc_def
       hd_conv_nth last_conv_nth nat_diff_distrib' Suc_le_eq)

section \<open>The report of a loaded series\<close>

lemma stats_literal_load:
  assumes "rs \<noteq> []"
  shows "stats_literal (load_health_data rs) =
     Inr [(''total_readings'', PInt (int (length rs))),
          (''time_span'', PFmt [PStr (timestamp (hd rs)), PStr '' to '', PStr (timestamp (last rs))]),
          (''heart_rate'',
             PDict [(''avg'', PNp (NpRound1 (NpMean (ints heart_rate rs)))),
                    (''min'', PInt (Min (heart_rate ` set rs))),
                    (''max'', PInt (Max (heart_rate ` set rs))),
                    (''std'', if length rs \<le> 1 then PNaN
                              else PNp (NpRound1 (NpStd (ints heart_rate rs))))]),
          (''spo2'',
             PDict [(''avg'', PNp (NpRound1 (NpMean (spo2_cells rs)))),
                    (''min'', spo2_min rs),
                    (''max'', spo2_max rs)]),
          (''temperature'',
             PDict [(''avg'', PNp (NpRound1 (NpMean (map temperature rs)))),
                    (''min'', PNp (NpRound1 (NpCell (Min (temperature ` set rs))))),
                    (''max'', PNp (NpRound1 (NpCell (Max (temperature ` set rs)))))]),
          (''blood_pressure'',
             PDict [(''systolic_avg'', PNp (NpRound1 (NpMean (ints systolic_bp rs)))),
                    (''diastolic_avg'', PNp (NpRound1 (NpMean (ints diastolic_bp rs)))),
                    (''systolic_range'', PFmt [PInt (Min (systolic_bp ` set rs)), PStr ''-'',
                                               PInt (Max (systolic_bp ` set rs))]),
                    (''diastolic_range'', PFmt [PInt (Min (diastolic_bp ` set rs)), PStr ''-'',
                                                PInt (Max (diastolic_bp ` set rs))])]),
          (''stress_level'',
             PDict [(''avg'', PNp (NpRound1 (NpMean (ints stress_level rs)))),
                    (''max'', PInt (Max (stress_level ` set rs)))]),
          (''total_steps'', PInt (wrap64 (sum_list (map steps rs))))]"
proof -
  have te: "avg_min_max_entry (load_health_data rs) ''temperature'' =
     Inr (PDict [(''avg'', PNp (NpRound1 (NpMean (map temperature rs)))),
                 (''min'', PNp (NpRound1 (NpCell (Min (temperature ` set rs))))),
                 (''max'', PNp (NpRound1 (NpCell (Max (temperature ` set rs)))))])"
    by (rule avg_min_max_entry_load[OF assms]) (simp add: load_health_data_def)
  have ts: "df_getitem (load_health_data rs) ''timestamp'' = Inr (StrCol (map timestamp rs))"
    by (simp add: load_health_data_def df_getitem_def dict_getitem_def)
  have st: "df_getitem (load_health_data rs) ''steps'' = Inr (IntCol (map steps rs))"
    by (simp add: load_health_data_def df_getitem_def dict_getitem_def)
  have len: "df_len (load_health_data rs) = length rs"
    by (simp add: load_health_data_def df_len_def)
  show ?thesis
    using time_span_load[OF assms]
    unfolding stats_literal_def heart_rate_entry_load[OF assms] spo2_entry_load[OF assms] te
      blood_pressure_entry_load[OF assms] stress_level_entry_load[OF assms] ts st len
    by (simp add: and_then_def)
qed

lemma analyze_load:
  assumes "rs \<noteq> []"
  shows "analyze_data_statistics (load_health_data rs) =
     Inr (finish_stats (projr (stats_literal (load_health_data rs)))
                       (map (\<lambda>(name, P). (name, rule_count P rs)) counted_rules))"
  unfolding analyze_data_statistics_def stats_literal_load[OF assms] anomalies_dict_load
  by (simp add: and_then_def counted_rules_def)

lemma report_entry_load:
  assumes "rs \<noteq> []"
  shows "report_entry rs key =
     map_of ((projr (stats_literal (load_health_data rs))) @
             [(''anomalies'', PDict (map (\<lambda>(name, P). (name, PInt (rule_count P rs))) counted_rules)),
              (''total_anomalies'', PInt (\<Sum>(name, P)\<leftarrow>counted_rules. rule_count P rs))]) key"
  unfolding report_entry_def analyze_load[OF assms] stats_literal_load[OF assms]
  by (simp add: finish_stats_def counted_rules_def dict_values_def)

lemma sum_indicator_filter:
  "(\<Sum>y\<leftarrow>ys. if P y then 1 else 0) = int (length (filter P ys))"
  by (induction ys) simp_all

lemma count_swap:
  "(\<Sum>(name, P)\<leftarrow>rules. int (length (filter P rs)))
     = (\<Sum>r\<leftarrow>rs. int (length (filter (\<lambda>(name, P). P r) rules)))"
proof (induction rules)
  case Nil
  then show ?case by simp
next
  case (Cons rule rules)
  obtain name P where rule: "rule = (name, P)" by (cases rule)
  have "(\<Sum>r\<leftarrow>rs. int (length (filter (\<lambda>(name, P). P r) (rule # rules))))
      = (\<Sum>r\<leftarrow>rs. (if P r then 1 else 0) + int (length (filter (\<lambda>(name, P). P r) rules)))"
    unfolding rule by (intro arg_cong[where f = sum_list] map_cong) simp_all
  also have "\<dots> = (\<Sum>r\<leftarrow>rs. if P r then 1 else 0)
                   + (\<Sum>r\<leftarrow>rs. int (length (filter (\<lambda>(name, P). P r) rules)))"
    by (simp add: sum_list_addf)
  also have "\<dots> = int (length (filter P rs))
                   + (\<Sum>(name, P)\<leftarrow>rules. int (length (filter P rs)))"
    unfolding sum_indicator_filter Cons.IH ..
  finally show ?case unfolding rule by simp
qed

lemma total_by_reading:
  "(\<Sum>(name, P)\<leftarrow>counted_rules. rule_count P rs) = (\<Sum>r\<leftarrow>rs. counted_by_code r)"
  unfolding rule_count_def counted_by_code_def by (rule count_swap)

lemma total_is_sum_of_counters:
  assumes "rs \<noteq> []"
  shows "report_entry rs ''anomalies''
           = Some (PDict (map (\<lambda>(name, P). (name, PInt (rule_count P rs))) counted_rules))
       \<and> report_entry rs ''total_anomalies''
           = Some (PInt (\<Sum>(name, P)\<leftarrow>counted_rules. rule_count P rs))
       \<and> (\<Sum>(name, P)\<leftarrow>counted_rules. rule_count P rs) = (\<Sum>r\<leftarrow>rs. counted_by_code r)"
  unfolding report_entry_load[OF assms] stats_literal_load[OF assms]
  using total_by_reading[of rs] by simp

text \<open>The sum of the ten per-rule counts of the specification exceeds the total of the
  report by the readings that satisfy a sleep rule.\<close>

lemma spec_total_split:
  assumes "rs \<noteq> []"
  shows "report_entry rs ''total_anomalies''
           = Some (PInt (spec_total rs - rule_count (\<lambda>r. sleep_hours r < 6.5) rs
                                       - rule_count (\<lambda>r. sleep_hours r > 9.0) rs))"
  unfolding report_entry_load[OF assms] stats_literal_load[OF assms]
  by (simp add: spec_total_def spec_rule_table_def counted_rules_def)

lemma report_self_equal:
  assumes "2 \<le> length rs"
  shows "\<exists>rep. analyze_data_statistics (load_health_data rs) = Inr rep \<and> py_eq rep rep"
proof -
  from assms have ne: "rs \<noteq> []" by auto
  from assms have n: "\<not> length rs \<le> 1" by simp
  have a: "py_eq (spo2_min rs) (spo2_min rs)" by (simp add: spo2_min_def)
  have b: "py_eq (spo2_max rs) (spo2_max rs)" by (simp add: spo2_max_def)
  show ?thesis
    unfolding analyze_load[OF ne] stats_literal_load[OF ne]
    using n a b by (simp add: finish_stats_def counted_rules_def dict_values_def)
qed

lemma report_single_nan:
  "\<exists>rep hr. analyze_data_statistics (load_health_data [r]) = Inr rep
      \<and> pyval_get rep ''heart_rate'' = Some hr \<and> pyval_get hr ''std'' = Some PNaN
      \<and> \<not> py_eq rep rep"
proof -
  have ne: "[r] \<noteq> []" by simp
  show ?thesis
    unfolding analyze_load[OF ne] stats_literal_load[OF ne]
    by (simp add: finish_stats_def counted_rules_def dict_values_def)
qed

lemma report_count_load:
  assumes "rs \<noteq> []" and "map_of counted_rules rule = Some P"
  shows "report_count rs rule = Some (rule_count P rs)"
proof -
  have "map_of (map (\<lambda>(name, P). (name, PInt (rule_count P rs))) counted_rules) rule
          = Some (PInt (rule_count P rs))"
    using assms(2) by (simp add: counted_rules_def split: if_splits)
  moreover have "report_entry rs ''anomalies''
      = Some (PDict (map (\<lambda>(name, P). (name, PInt (rule_count P rs))) counted_rules))"
    unfolding report_entry_load[OF assms(1)] stats_literal_load[OF assms(1)] by simp
  ultimately show ?thesis by (simp add: report_count_def)
qed

lemma report_count_unknown:
  assumes "rs \<noteq> []" and "map_of counted_rules rule = None"
  shows "report_count rs rule = None"
proof -
  have "map_of (map (\<lambda>(name, P). (name, PInt (rule_count P rs))) counted_rules) rule = None"
    using assms(2) by (simp add: counted_rules_def split: if_splits)
  moreover have "report_entry rs ''anomalies''
      = Some (PDict (map (\<lambda>(name, P). (name, PInt (rule_count P rs))) counted_rules))"
    unfolding report_entry_load[OF assms(1)] stats_literal_load[OF assms(1)] by simp
  ultimately show ?thesis by (simp add: report_count_def)
qed

section \<open>Frames in general\<close>

lemma getitem_missing:
  "\<not> has_column df name \<Longrightarrow> df_getitem df name = Inl (KeyError name)"
proof -
  assume "\<not> has_column df name"
  then have "map_of (columns df) name = None"
    unfolding has_column_def dict_keys_def by (simp add: map_of_eq_None_iff)
  then show ?thesis by (simp add: df_getitem_def dict_getitem_def)
qed

lemma getitem_present:
  assumes "well_formed df" "has_column df name"
  shows "\<exists>col. df_getitem df name = Inr col \<and> series_len col = index_len df
           \<and> (name \<in> set metric_columns \<longrightarrow> numeric col)"
proof -
  from assms(2) have "map_of (columns df) name \<noteq> None"
    unfolding has_column_def dict_keys_def by (simp add: map_of_eq_None_iff)
  then obtain col where c: "map_of (columns df) name = Some col" by blast
  then have "(name, col) \<in> set (columns df)" by (rule map_of_SomeD)
  with assms(1) have "series_len col = index_len df \<and> (name \<in> set metric_columns \<longrightarrow> numeric col)"
    unfolding well_formed_def by blast
  with c show ?thesis
    by (simp add: df_getitem_def dict_getitem_def)
qed

lemma mean_round_numeric:
  "numeric col \<Longrightarrow> \<exists>m v. series_mean col = Inr m \<and> py_round1 m = Inr v"
  by (cases col) (simp_all add: list_mean_def)

lemma std_round_numeric:
  "numeric col \<Longrightarrow> \<exists>m v. series_std col = Inr m \<and> py_round1 m = Inr v"
  by (cases col) (simp_all add: list_std_def Let_def)

lemma min_round_numeric:
  "numeric col \<Longrightarrow> \<exists>v. py_round1 (series_min col) = Inr v"
  by (cases col) (simp_all split: option.splits)

lemma max_round_numeric:
  "numeric col \<Longrightarrow> \<exists>v. py_round1 (series_max col) = Inr v"
  by (cases col) (simp_all split: option.splits)

lemma heart_rate_entry_ok:
  assumes "df_getitem df ''heart_rate'' = Inr col" "numeric col"
  shows "\<exists>v. heart_rate_entry df = Inr v"
proof -
  obtain m a where m: "series_mean col = Inr m" "py_round1 m = Inr a"
    using mean_round_numeric[OF assms(2)] by blast
  obtain s b where s: "series_std col = Inr s" "py_round1 s = Inr b"
    using std_round_numeric[OF assms(2)] by blast
  show ?thesis
    by (simp add: heart_rate_entry_def and_then_def assms(1) m s)
qed

lemma avg_min_max_entry_ok:
  assumes "df_getitem df name = Inr col" "numeric col"
  shows "\<exists>v. avg_min_max_entry df name = Inr v"
proof -
  obtain m a where m: "series_mean col = Inr m" "py_round1 m = Inr a"
    using mean_round_numeric[OF assms(2)] by blast
  obtain lo where lo: "py_round1 (series_min col) = Inr lo"
    using min_round_numeric[OF assms(2)] by blast
  obtain hi where hi: "py_round1 (series_max col) = Inr hi"
    using max_round_numeric[OF assms(2)] by blast
  show ?thesis
    by (simp add: avg_min_max_entry_def and_then_def assms(1) m lo hi)
qed

lemma blood_pressure_entry_ok:
  assumes "df_getitem df ''systolic_bp'' = Inr s" "numeric s"
    and "df_getitem df ''diastolic_bp'' = Inr d" "numeric d"
  shows "\<exists>v. blood_pressure_entry df = Inr v"
proof -
  obtain m a where m: "series_mean s = Inr m" "py_round1 m = Inr a"
    using mean_round_numeric[OF assms(2)] by blast
  obtain m' a' where m': "series_mean d = Inr m'" "py_round1 m' = Inr a'"
    using mean_round_numeric[OF assms(4)] by blast
  show ?thesis
    by (simp add: blood_pressure_entry_def and_then_def assms(1,3) m m')
qed

lemma blood_pressure_entry_no_diastolic:
  assumes "df_getitem df ''systolic_bp'' = Inr s" "numeric s"
    and "df_getitem df ''diastolic_bp'' = Inl e"
  shows "blood_pressure_entry df = Inl e"
proof -
  obtain m a where m: "series_mean s = Inr m" "py_round1 m = Inr a"
    using mean_round_numeric[OF assms(2)] by blast
  show ?thesis
    by (simp add: blood_pressure_entry_def and_then_def assms(1,3) m)
qed

lemma stress_level_entry_ok:
  assumes "df_getitem df ''stress_level'' = Inr col" "numeric col"
  shows "\<exists>v. stress_level_entry df = Inr v"
proof -
  obtain m a where m: "series_mean col = Inr m" "py_round1 m = Inr a"
    using mean_round_numeric[OF assms(2)] by blast
  show ?thesis
    by (simp add: stress_level_entry_def and_then_def assms(1) m)
qed

lemma count_gt_ok:
  "df_getitem df name = Inr col \<Longrightarrow> numeric col \<Longrightarrow> \<exists>n. count_gt df name c = Inr n"
  by (cases col) (simp_all add: count_gt_def and_then_def)

lemma count_lt_ok:
  "df_getitem df name = Inr col \<Longrightarrow> numeric col \<Longrightarrow> \<exists>n. count_lt df name c = Inr n"
  by (cases col) (simp_all add: count_lt_def and_then_def)

lemma anomalies_dict_ok:
  assumes "df_getitem df ''heart_rate'' = Inr c1" "numeric c1"
    and "df_getitem df ''spo2'' = Inr c2" "numeric c2"
    and "df_getitem df ''temperature'' = Inr c3" "numeric c3"
    and "df_getitem df ''systolic_bp'' = Inr c4" "numeric c4"
    and "df_getitem df ''stress_level'' = Inr c5" "numeric c5"
  shows "\<exists>an. anomalies_dict df = Inr an"
proof -
  obtain n1 where 1: "count_gt df ''heart_rate'' 120 = Inr n1"
    using count_gt_ok[OF assms(1,2)] by blast
  obtain n2 where 2: "count_lt df ''heart_rate'' 60 = Inr n2"
    using count_lt_ok[OF assms(1,2)] by blast
  obtain n3 where 3: "count_lt df ''spo2'' 95 = Inr n3"
    using count_lt_ok[OF assms(3,4)] by blast
  obtain n4 where 4: "count_gt df ''temperature'' 37.2 = Inr n4"
    using count_gt_ok[OF assms(5,6)] by blast
  obtain n5 where 5: "count_lt df ''temperature'' 36.1 = Inr n5"
    using count_lt_ok[OF assms(5,6)] by blast
  obtain n6 where 6: "count_gt df ''systolic_bp'' 130 = Inr n6"
    using count_gt_ok[OF assms(7,8)] by blast
  obtain n7 where 7: "count_lt df ''systolic_bp'' 110 = Inr n7"
    using count_lt_ok[OF assms(7,8)] by blast
  obtain n8 where 8: "count_gt df ''stress_level'' 6 = Inr n8"
    using count_gt_ok[OF assms(9,10)] by blast
  show ?thesis unfolding anomalies_dict_def 1 2 3 4 5 6 7 8 by (simp add: and_then_def)
qed

lemma iloc_empty: "series_len col = 0 \<Longrightarrow> iloc col i = Inl IndexError"
  by (cases col) (simp_all add: list_iloc_def and_then_def)

lemma iloc_nonempty:
  "0 < series_len col \<Longrightarrow> \<exists>a b. iloc col 0 = Inr a \<and> iloc col (- 1) = Inr b"
  by (cases col) (simp_all add: list_iloc_def and_then_def Suc_le_eq)

lemma metric_column_simps:
  "''heart_rate'' \<in> set metric_columns" "''spo2'' \<in> set metric_columns"
  "''temperature'' \<in> set metric_columns" "''systolic_bp'' \<in> set metric_columns"
  "''diastolic_bp'' \<in> set metric_columns" "''stress_level'' \<in> set metric_columns"
  "''steps'' \<in> set metric_columns"
  by (simp_all add: metric_columns_def)

lemma numeric_present:
  assumes "well_formed df" "has_column df name" "name \<in> set metric_columns"
  shows "\<exists>col. df_getitem df name = Inr col \<and> numeric col"
  using getitem_present[OF assms(1,2)] assms(3) by blast

lemma heart_rate_entry_missing:
  "\<not> has_column df ''heart_rate'' \<Longrightarrow> heart_rate_entry df = Inl (KeyError ''heart_rate'')"
  by (simp add: heart_rate_entry_def getitem_missing and_then_def)

lemma avg_min_max_entry_missing:
  "\<not> has_column df name \<Longrightarrow> avg_min_max_entry df name = Inl (KeyError name)"
  by (simp add: avg_min_max_entry_def getitem_missing and_then_def)

lemma blood_pressure_entry_missing_systolic:
  "\<not> has_column df ''systolic_bp'' \<Longrightarrow> blood_pressure_entry df = Inl (KeyError ''systolic_bp'')"
  by (simp add: blood_pressure_entry_def getitem_missing and_then_def)

lemma stress_level_entry_missing:
  "\<not> has_column df ''stress_level'' \<Longrightarrow> stress_level_entry df = Inl (KeyError ''stress_level'')"
  by (simp add: stress_level_entry_def getitem_missing and_then_def)

lemma analyze_result:
  assumes wf: "well_formed df"
  shows "case first_failure df of
           Some e \<Rightarrow> analyze_data_statistics df = Inl e
         | None \<Rightarrow> (\<exists>stats. analyze_data_statistics df = Inr stats)"
proof (cases "has_column df ''timestamp''")
  case False
  then show ?thesis
    by (simp add: first_failure_def read_columns_def analyze_data_statistics_def stats_literal_def finish_stats_def getitem_missing and_then_def)
next
  case ts: True
  then obtain tcol where tcol: "df_getitem df ''timestamp'' = Inr tcol" "series_len tcol = index_len df"
    using getitem_present[OF wf] by blast
  show ?thesis
  proof (cases "index_len df = 0")
    case True
    with ts tcol iloc_empty[of tcol 0] show ?thesis
      by (simp add: first_failure_def read_columns_def analyze_data_statistics_def stats_literal_def finish_stats_def and_then_def)
  next
    case ne: False
    then obtain t0 t1 where span: "iloc tcol 0 = Inr t0" "iloc tcol (- 1) = Inr t1"
      using iloc_nonempty[of tcol] tcol(2) by auto
    note pre = ts ne tcol(1) span
    show ?thesis
    proof (cases "has_column df ''heart_rate''")
      case False
      with pre show ?thesis
        by (simp add: first_failure_def read_columns_def analyze_data_statistics_def stats_literal_def finish_stats_def and_then_def
            heart_rate_entry_missing)
    next
      case hr: True
      obtain c1 where c1: "df_getitem df ''heart_rate'' = Inr c1" "numeric c1"
        using numeric_present[OF wf hr] metric_column_simps by blast
      obtain e1 where e1: "heart_rate_entry df = Inr e1"
        using heart_rate_entry_ok[OF c1] by blast
      show ?thesis
      proof (cases "has_column df ''spo2''")
        case False
        with pre hr e1 show ?thesis
          by (simp add: first_failure_def read_columns_def analyze_data_statistics_def stats_literal_def finish_stats_def and_then_def
              avg_min_max_entry_missing)
      next
        case ox: True
        obtain c2 where c2: "df_getitem df ''spo2'' = Inr c2" "numeric c2"
          using numeric_present[OF wf ox] metric_column_simps by blast
        obtain e2 where e2: "avg_min_max_entry df ''spo2'' = Inr e2"
          using avg_min_max_entry_ok[OF c2] by blast
        show ?thesis
        proof (cases "has_column df ''temperature''")
          case False
          with pre hr e1 ox e2 show ?thesis
            by (simp add: first_failure_def read_columns_def analyze_data_statistics_def stats_literal_def finish_stats_def and_then_def
                avg_min_max_entry_missing)
        next
          case te: True
          obtain c3 where c3: "df_getitem df ''temperature'' = Inr c3" "numeric c3"
            using numeric_present[OF wf te] metric_column_simps by blast
          obtain e3 where e3: "avg_min_max_entry df ''temperature'' = Inr e3"
            using avg_min_max_entry_ok[OF c3] by blast
          show ?thesis
          proof (cases "has_column df ''systolic_bp''")
            case False
            with pre hr e1 ox e2 te e3 show ?thesis
              by (simp add: first_failure_def read_columns_def analyze_data_statistics_def stats_literal_def finish_stats_def and_then_def
                  blood_pressure_entry_missing_systolic)
          next
            case sy: True
            obtain c4 where c4: "df_getitem df ''systolic_bp'' = Inr c4" "numeric c4"
              using numeric_present[OF wf sy] metric_column_simps by blast
            show ?thesis
            proof (cases "has_column df ''diastolic_bp''")
              case False
              then have "blood_pressure_entry df = Inl (KeyError ''diastolic_bp'')"
                using blood_pressure_entry_no_diastolic[OF c4] getitem_missing by blast
              with pre hr e1 ox e2 te e3 sy False show ?thesis
                by (simp add: first_failure_def read_columns_def analyze_data_statistics_def stats_literal_def finish_stats_def and_then_def)
            next
              case di: True
              obtain c5 where c5: "df_getitem df ''diastolic_bp'' = Inr c5" "numeric c5"
                using numeric_present[OF wf di] metric_column_simps by blast
              obtain e4 where e4: "blood_pressure_entry df = Inr e4"
                using blood_pressure_entry_ok[OF c4 c5] by blast
              show ?thesis
              proof (cases "has_column df ''stress_level''")
                case False
                with pre hr e1 ox e2 te e3 sy di e4 show ?thesis
                  by (simp add: first_failure_def read_columns_def analyze_data_statistics_def stats_literal_def finish_stats_def and_then_def
                      stress_level_entry_missing)
              next
                case st: True
                obtain c6 where c6: "df_getitem df ''stress_level'' = Inr c6" "numeric c6"
                  using numeric_present[OF wf st] metric_column_simps by blast
                obtain e5 where e5: "stress_level_entry df = Inr e5"
                  using stress_level_entry_ok[OF c6] by blast
                show ?thesis
                proof (cases "has_column df ''steps''")
                  case False
                  with pre hr e1 ox e2 te e3 sy di e4 st e5 show ?thesis
                    by (simp add: first_failure_def read_columns_def analyze_data_statistics_def stats_literal_def finish_stats_def and_then_def
                        getitem_missing)
                next
                  case sp: True
                  obtain c7 where c7: "df_getitem df ''steps'' = Inr c7"
                    using getitem_present[OF wf sp] by blast
                  obtain an where an: "anomalies_dict df = Inr an"
                    using anomalies_dict_ok[OF c1 c2 c3 c4 c6] by blast
                  from pre hr e1 ox e2 te e3 sy di e4 st e5 sp c7 an show ?thesis
                    by (simp add: first_failure_def read_columns_def analyze_data_statistics_def stats_literal_def finish_stats_def and_then_def
                        Let_def)
                qed
              qed
            qed
          qed
        qed
      qed
    qed
  qed
qed

lemma well_formed_load: "well_formed (load_health_data rs)"
  by (simp add: well_formed_def load_health_data_def dict_keys_def metric_columns_def
      number_column_def int_cells_length)

section \<open>The store\<close>

lemma reads_bind:
  assumes "reads_only r m fm" and "\<And>x. reads_only r (k x) (fk x)"
  shows "reads_only r (prog_bind m k) (\<lambda>df. and_then (fm df) (\<lambda>x. fk x df))"
  unfolding reads_only_def
proof (intro allI impI)
  fix st :: store
  assume r: "r < length st"
  from assms(1) r obtain ext1 where m: "m st = (fm (st ! r), st @ ext1)"
    unfolding reads_only_def by blast
  show "\<exists>ext. prog_bind m k st = (and_then (fm (st ! r)) (\<lambda>x. fk x (st ! r)), st @ ext)"
  proof (cases "fm (st ! r)")
    case (Inl e)
    with m show ?thesis by (auto simp: prog_bind_def and_then_def)
  next
    case (Inr x)
    from r have r': "r < length (st @ ext1)" by simp
    from assms(2)[of x] r' obtain ext2 where
      k: "k x (st @ ext1) = (fk x ((st @ ext1) ! r), (st @ ext1) @ ext2)"
      unfolding reads_only_def by blast
    from r have "(st @ ext1) ! r = st ! r" by (simp add: nth_append)
    with m k Inr have "prog_bind m k st = (and_then (fm (st ! r)) (\<lambda>x. fk x (st ! r)), st @ (ext1 @ ext2))"
      by (simp add: prog_bind_def and_then_def)
    then show ?thesis by blast
  qed
qed

lemma reads_return: "reads_only r (prog_return x) (\<lambda>df. Inr x)"
  unfolding reads_only_def prog_return_def
  by (metis append_Nil2)

lemma reads_lift: "reads_only r (prog_lift v) (\<lambda>df. v)"
  unfolding reads_only_def prog_lift_def
  by (metis append_Nil2)

lemma reads_frame: "reads_only r (read_frame r) (\<lambda>df. Inr df)"
  unfolding reads_only_def read_frame_def
  by (metis append_Nil2)

lemma len_obj_reads: "reads_only r (len_obj r) (\<lambda>df. Inr (df_len df))"
  unfolding reads_only_def len_obj_def prog_bind_def read_frame_def prog_return_def
  by (simp add: exI[of _ "[]"])

lemma getitem_obj_reads: "reads_only r (getitem_obj r name) (\<lambda>df. df_getitem df name)"
  unfolding reads_only_def getitem_obj_def prog_bind_def read_frame_def prog_lift_def
  by (simp add: exI[of _ "[]"])

lemma getitem_obj_eq: "getitem_obj r name st = (df_getitem (st ! r) name, st)"
  by (simp add: getitem_obj_def prog_bind_def read_frame_def prog_lift_def)

lemma mask_then_len:
  "prog_bind (mask_obj r bs) (\<lambda>selected. prog_bind (len_obj selected) (\<lambda>n. prog_return (int n))) st
     = (Inr (int (df_len (df_mask (st ! r) bs))), st @ [df_mask (st ! r) bs])"
  by (simp add: mask_obj_def len_obj_def prog_bind_def read_frame_def new_frame_def
      prog_return_def)

lemma count_gt_obj_reads: "reads_only r (count_gt_obj r name c) (\<lambda>df. count_gt df name c)"
  unfolding reads_only_def
proof (intro allI impI)
  fix st :: store
  assume "r < length st"
  show "\<exists>ext. count_gt_obj r name c st = (count_gt (st ! r) name c, st @ ext)"
  proof (cases "df_getitem (st ! r) name")
    case (Inl e)
    then have "count_gt_obj r name c st = (count_gt (st ! r) name c, st @ [])"
      by (simp add: count_gt_obj_def count_gt_def prog_bind_def getitem_obj_eq and_then_def)
    then show ?thesis by blast
  next
    case col: (Inr col)
    show ?thesis
    proof (cases "series_gt col c")
      case (Inl e)
      with col have "count_gt_obj r name c st = (count_gt (st ! r) name c, st @ [])"
        by (simp add: count_gt_obj_def count_gt_def prog_bind_def getitem_obj_eq prog_lift_def
            and_then_def)
      then show ?thesis by blast
    next
      case (Inr bs)
      have "count_gt_obj r name c st
          = prog_bind (mask_obj r bs)
              (\<lambda>selected. prog_bind (len_obj selected) (\<lambda>n. prog_return (int n))) st"
        using col Inr by (simp add: count_gt_obj_def prog_bind_def getitem_obj_eq prog_lift_def)
      with col Inr have "count_gt_obj r name c st
          = (count_gt (st ! r) name c, st @ [df_mask (st ! r) bs])"
        by (simp add: mask_then_len count_gt_def and_then_def)
      then show ?thesis by blast
    qed
  qed
qed

lemma count_lt_obj_reads: "reads_only r (count_lt_obj r name c) (\<lambda>df. count_lt df name c)"
  unfolding reads_only_def
proof (intro allI impI)
  fix st :: store
  assume "r < length st"
  show "\<exists>ext. count_lt_obj r name c st = (count_lt (st ! r) name c, st @ ext)"
  proof (cases "df_getitem (st ! r) name")
    case (Inl e)
    then have "count_lt_obj r name c st = (count_lt (st ! r) name c, st @ [])"
      by (simp add: count_lt_obj_def count_lt_def prog_bind_def getitem_obj_eq and_then_def)
    then show ?thesis by blast
  next
    case col: (Inr col)
    show ?thesis
    proof (cases "series_lt col c")
      case (Inl e)
      with col have "count_lt_obj r name c st = (count_lt (st ! r) name c, st @ [])"
        by (simp add: count_lt_obj_def count_lt_def prog_bind_def getitem_obj_eq prog_lift_def
            and_then_def)
      then show ?thesis by blast
    next
      case (Inr bs)
      have "count_lt_obj r name c st
          = prog_bind (mask_obj r bs)
              (\<lambda>selected. prog_bind (len_obj selected) (\<lambda>n. prog_return (int n))) st"
        using col Inr by (simp add: count_lt_obj_def prog_bind_def getitem_obj_eq prog_lift_def)
      with col Inr have "count_lt_obj r name c st
          = (count_lt (st ! r) name c, st @ [df_mask (st ! r) bs])"
        by (simp add: mask_then_len count_lt_def and_then_def)
      then show ?thesis by blast
    qed
  qed
qed

lemma anomalies_dict_obj_reads: "reads_only r (anomalies_dict_obj r) anomalies_dict"
proof -
  have "reads_only r (anomalies_dict_obj r) (\<lambda>df. anomalies_dict df)"
    unfolding anomalies_dict_obj_def anomalies_dict_def
    by (intro reads_bind count_gt_obj_reads count_lt_obj_reads reads_return)
  then show ?thesis by simp
qed

lemma heart_rate_entry_obj_reads: "reads_only r (heart_rate_entry_obj r) heart_rate_entry"
proof -
  have "reads_only r (heart_rate_entry_obj r) (\<lambda>df. heart_rate_entry df)"
    unfolding heart_rate_entry_obj_def heart_rate_entry_def
    by (intro reads_bind getitem_obj_reads reads_lift reads_return)
  then show ?thesis by simp
qed

lemma avg_min_max_entry_obj_reads:
  "reads_only r (avg_min_max_entry_obj r name) (\<lambda>df. avg_min_max_entry df name)"
  unfolding avg_min_max_entry_obj_def avg_min_max_entry_def
  by (intro reads_bind getitem_obj_reads reads_lift reads_return)

lemma blood_pressure_entry_obj_reads:
  "reads_only r (blood_pressure_entry_obj r) blood_pressure_entry"
proof -
  have "reads_only r (blood_pressure_entry_obj r) (\<lambda>df. blood_pressure_entry df)"
    unfolding blood_pressure_entry_obj_def blood_pressure_entry_def
    by (intro reads_bind getitem_obj_reads reads_lift reads_return)
  then show ?thesis by simp
qed

lemma stress_level_entry_obj_reads:
  "reads_only r (stress_level_entry_obj r) stress_level_entry"
proof -
  have "reads_only r (stress_level_entry_obj r) (\<lambda>df. stress_level_entry df)"
    unfolding stress_level_entry_obj_def stress_level_entry_def
    by (intro reads_bind getitem_obj_reads reads_lift reads_return)
  then show ?thesis by simp
qed

lemma and_then_Inr: "and_then (Inr x) f = f x"
  by (simp add: and_then_def)

lemma stats_literal_obj_reads: "reads_only r (stats_literal_obj r) stats_literal"
proof -
  have "reads_only r (stats_literal_obj r) (\<lambda>df.
     and_then (Inr (df_len df)) (\<lambda>total_readings.
     and_then (df_getitem df ''timestamp'') (\<lambda>t1.
     and_then (iloc t1 0) (\<lambda>first_ts.
     and_then (df_getitem df ''timestamp'') (\<lambda>t2.
     and_then (iloc t2 (- 1)) (\<lambda>last_ts.
     and_then (heart_rate_entry df) (\<lambda>hr.
     and_then (avg_min_max_entry df ''spo2'') (\<lambda>ox.
     and_then (avg_min_max_entry df ''temperature'') (\<lambda>temp.
     and_then (blood_pressure_entry df) (\<lambda>bp.
     and_then (stress_level_entry df) (\<lambda>stress.
     and_then (df_getitem df ''steps'') (\<lambda>st.
     Inr [(''total_readings'', PInt (int total_readings)),
          (''time_span'', PFmt [first_ts, PStr '' to '', last_ts]),
          (''heart_rate'', hr),
          (''spo2'', ox),
          (''temperature'', temp),
          (''blood_pressure'', bp),
          (''stress_level'', stress),
          (''total_steps'', series_sum st)]))))))))))))"
    unfolding stats_literal_obj_def
    by (intro reads_bind len_obj_reads getitem_obj_reads reads_lift reads_return
        heart_rate_entry_obj_reads avg_min_max_entry_obj_reads blood_pressure_entry_obj_reads
        stress_level_entry_obj_reads)
  moreover have "stats_literal = (\<lambda>df.
     and_then (Inr (df_len df)) (\<lambda>total_readings.
     and_then (df_getitem df ''timestamp'') (\<lambda>t1.
     and_then (iloc t1 0) (\<lambda>first_ts.
     and_then (df_getitem df ''timestamp'') (\<lambda>t2.
     and_then (iloc t2 (- 1)) (\<lambda>last_ts.
     and_then (heart_rate_entry df) (\<lambda>hr.
     and_then (avg_min_max_entry df ''spo2'') (\<lambda>ox.
     and_then (avg_min_max_entry df ''temperature'') (\<lambda>temp.
     and_then (blood_pressure_entry df) (\<lambda>bp.
     and_then (stress_level_entry df) (\<lambda>stress.
     and_then (df_getitem df ''steps'') (\<lambda>st.
     Inr [(''total_readings'', PInt (int total_readings)),
          (''time_span'', PFmt [first_ts, PStr '' to '', last_ts]),
          (''heart_rate'', hr),
          (''spo2'', ox),
          (''temperature'', temp),
          (''blood_pressure'', bp),
          (''stress_level'', stress),
          (''total_steps'', series_sum st)]))))))))))))"
    by (rule ext) (simp only: stats_literal_def and_then_Inr)
  ultimately show ?thesis by simp
qed

lemma analyze_obj_pure: "reads_only r (analyze_data_statistics_obj r) analyze_data_statistics"
proof -
  have "reads_only r (analyze_data_statistics_obj r) (\<lambda>df. analyze_data_statistics df)"
    unfolding analyze_data_statistics_obj_def analyze_data_statistics_def
    by (intro reads_bind stats_literal_obj_reads anomalies_dict_obj_reads reads_return)
  then show ?thesis by simp
qed

text \<open>Not every program on the store only reads: the assignment of
  \<^verbatim>\<open>doctor_chat.py\<close> changes the frame it is given.\<close>

lemma set_person_id_eq:
  "set_person_id r patient_id st =
     (Inr (), st[r := (st ! r) \<lparr> columns := dict_setitem (columns (st ! r)) ''person_id''
                                   (StrCol (replicate (df_len (st ! r)) patient_id)) \<rparr>])"
  by (simp add: set_person_id_def len_obj_def setitem_obj_def prog_bind_def read_frame_def
      prog_return_def write_frame_def)

lemma set_person_id_writes: "\<not> reads_only r (set_person_id r patient_id) f"
proof
  assume ro: "reads_only r (set_person_id r patient_id) f"
  define df where "df = \<lparr> index_len = 0, columns = [] \<rparr>"
  define st where "st = replicate (Suc r) df"
  have r: "r < length st" by (simp add: st_def)
  have at: "st ! r = df" unfolding st_def by (simp del: replicate_Suc)
  from ro r obtain ext where "set_person_id r patient_id st = (f (st ! r), st @ ext)"
    unfolding reads_only_def by blast
  then have eq: "st[r := df \<lparr> columns := dict_setitem (columns df) ''person_id''
                          (StrCol (replicate (df_len df) patient_id)) \<rparr>] = st @ ext"
    by (simp add: set_person_id_eq at)
  then have "length (st @ ext) = length st" by (metis length_list_update)
  then have "ext = []" by simp
  with eq have "(st[r := df \<lparr> columns := dict_setitem (columns df) ''person_id''
                          (StrCol (replicate (df_len df) patient_id)) \<rparr>]) ! r = st ! r"
    by simp
  with r have "df \<lparr> columns := dict_setitem (columns df) ''person_id''
                          (StrCol (replicate (df_len df) patient_id)) \<rparr> = df"
    by (simp add: at)
  then have "columns (df \<lparr> columns := dict_setitem (columns df) ''person_id''
                          (StrCol (replicate (df_len df) patient_id)) \<rparr>) = columns df"
    by simp
  then show False by (simp add: df_def)
qed

section \<open>Sampling\<close>

lemma round_half_even_bounds:
  assumes "real_of_int a \<le> y" and "y \<le> real_of_int b"
  shows "a \<le> round_half_even y \<and> round_half_even y \<le> b"
proof -
  have lo: "a \<le> \<lfloor>y\<rfloor>" using assms(1) by (simp add: le_floor_iff)
  have hi: "\<lfloor>y\<rfloor> \<le> b" using assms(2) by linarith
  have up: "\<lfloor>y\<rfloor> + 1 \<le> b" if "1 / 2 \<le> y - of_int \<lfloor>y\<rfloor>"
  proof -
    from that have "of_int \<lfloor>y\<rfloor> < y" by linarith
    with assms(2) have "real_of_int \<lfloor>y\<rfloor> < real_of_int b" by linarith
    then show ?thesis by linarith
  qed
  show ?thesis
    using lo hi up unfolding round_half_even_def Let_def
    by (auto split: if_splits)
qed

lemma round1_bounds:
  assumes "real_of_int a / 10 \<le> x" and "x \<le> real_of_int b / 10"
  shows "real_of_int a / 10 \<le> round1 x \<and> round1 x \<le> real_of_int b / 10"
proof -
  have "real_of_int a \<le> x * 10" "x * 10 \<le> real_of_int b" using assms by auto
  from round_half_even_bounds[OF this] show ?thesis
    unfolding round1_def by (simp add: divide_le_cancel)
qed

lemma one_decimal_round1: "one_decimal (round1 x)"
  by (simp add: one_decimal_def round1_def)

lemma random_unit:
  "0 \<le> real (n mod 2 ^ 53) / 2 ^ 53" "real (n mod 2 ^ 53) / 2 ^ 53 < 1"
proof -
  show "0 \<le> real (n mod 2 ^ 53) / 2 ^ 53" by simp
  have "n mod 2 ^ 53 < 2 ^ 53" by simp
  then have "real (n mod 2 ^ 53) < 2 ^ 53" by (metis of_nat_less_iff of_nat_numeral of_nat_power)
  then show "real (n mod 2 ^ 53) / 2 ^ 53 < 1" by simp
qed

lemma randint_range_eq:
  "a \<le> b \<Longrightarrow> randint_range (IntRange a b) g = (Inr (PInt (randint_value a b g)), stl g)"
  by (simp add: prog_bind_def prog_return_def random_randint_def randint_value_def)

lemma uniform_range_float_eq:
  "uniform_range (FloatRange a b) g = (Inr (PFloat (uniform_value a b g)), stl g)"
  by (simp add: prog_bind_def prog_return_def random_uniform_def random_random_def uniform_value_def)

lemma uniform_range_int_eq:
  "uniform_range (IntRange a b) g = (Inr (PFloat (uniform_value (real_of_int a) (real_of_int b) g)), stl g)"
  by (simp add: prog_bind_def prog_return_def random_uniform_def random_random_def uniform_value_def)

lemma randint_value_bounds:
  assumes "a \<le> b" shows "a \<le> randint_value a b g \<and> randint_value a b g \<le> b"
proof -
  have "0 < nat (b - a + 1)" using assms by simp
  then have "shd g mod nat (b - a + 1) < nat (b - a + 1)" by (rule mod_less_divisor)
  then have "int (shd g mod nat (b - a + 1)) < b - a + 1" using assms by linarith
  then show ?thesis by (simp add: randint_value_def)
qed

lemma uniform_value_bounds:
  assumes "a = real_of_int ia / 10" "b = real_of_int ib / 10" "a \<le> b"
  shows "a \<le> uniform_value a b g \<and> uniform_value a b g \<le> b"
proof -
  define u where "u = real (shd g mod 2 ^ 53) / 2 ^ 53"
  have u: "0 \<le> u" "u < 1" unfolding u_def by (rule random_unit)+
  have "0 \<le> (b - a) * u" using u assms(3) by simp
  moreover have "(b - a) * u \<le> (b - a) * 1" using u assms(3) by (intro mult_left_mono) auto
  ultimately have "real_of_int ia / 10 \<le> a + (b - a) * u" "a + (b - a) * u \<le> real_of_int ib / 10"
    unfolding assms(1,2) by auto
  from round1_bounds[OF this] have "a \<le> round1 (a + (b - a) * u) \<and> round1 (a + (b - a) * u) \<le> b"
    unfolding assms(1,2) .
  then show ?thesis
    unfolding uniform_value_def u_def .
qed

lemma one_decimal_uniform_value: "one_decimal (uniform_value a b g)"
  by (simp add: uniform_value_def one_decimal_round1)

lemma prog_bind_lift_Inr [simp]: "prog_bind (prog_lift (Inr x)) f = f x"
  by (rule ext) (simp add: prog_bind_def prog_lift_def)

lemma prog_bind_lift_Inl [simp]: "prog_bind (prog_lift (Inl e)) f = prog_lift (Inl e)"
  by (rule ext) (simp add: prog_bind_def prog_lift_def)

lemma prog_bind_return [simp]: "prog_bind (prog_return x) f = f x"
  by (rule ext) (simp add: prog_bind_def prog_return_def)

lemma prog_bind_randint:
  "a \<le> b \<Longrightarrow> prog_bind (randint_range (IntRange a b)) f g = f (PInt (randint_value a b g)) (stl g)"
  by (simp add: prog_bind_def randint_range_eq del: randint_range.simps)

lemma prog_bind_uniform_float:
  "prog_bind (uniform_range (FloatRange a b)) f g = f (PFloat (uniform_value a b g)) (stl g)"
  by (simp add: prog_bind_def uniform_range_float_eq del: uniform_range.simps)

lemma prog_bind_uniform_int:
  "prog_bind (uniform_range (IntRange a b)) f g =
     f (PFloat (uniform_value (real_of_int a) (real_of_int b) g)) (stl g)"
  by (simp add: prog_bind_def uniform_range_int_eq del: uniform_range.simps)

lemma prog_bind_random:
  "prog_bind random_random f g = f (real (shd g mod 2 ^ 53) / 2 ^ 53) (stl g)"
  by (simp add: prog_bind_def random_random_def)

lemmas gen_simps = prog_bind_randint prog_bind_uniform_float prog_bind_uniform_int prog_bind_random

lemma base_reading_eq:
  "base_reading SmartWatchDataGenerator ts g =
     (Inr [(''timestamp'', PStr (isoformat ts)),
           (''heart_rate'', PInt (randint_value 60 100 g)),
           (''spo2'', PFloat (uniform_value 95 100 (stl g))),
           (''temperature'', PFloat (uniform_value 36.1 37.2 (stl (stl g)))),
           (''systolic_bp'', PInt (randint_value 110 130 (stl (stl (stl g))))),
           (''diastolic_bp'', PInt (randint_value 70 85 (stl (stl (stl (stl g)))))),
           (''steps'', PInt (randint_value 0 150 (stl (stl (stl (stl (stl g))))))),
           (''stress_level'', PInt (randint_value 1 5 (stl (stl (stl (stl (stl (stl g)))))))),
           (''sleep_hours'', PFloat (uniform_value 6.5 9.0 (stl (stl (stl (stl (stl (stl (stl g)))))))))],
      stl (stl (stl (stl (stl (stl (stl (stl g))))))))"
  by (simp add: base_reading_def SmartWatchDataGenerator_def dict_getitem_def gen_simps prog_return_def
      del: randint_range.simps uniform_range.simps)

lemma weights_eq:
  "weights_of (anomaly_types SmartWatchDataGenerator) (dict_keys (anomaly_types SmartWatchDataGenerator))
     = Inr [0.05, 0.03, 0.04, 0.03, 0.02, 0.04, 0.03, 0.06, 0.04, 0.02]"
  by (simp add: SmartWatchDataGenerator_def dict_keys_def dict_getitem_def and_then_def)

lemma select_anomaly_eq:
  "\<exists>i \<le> 9. select_anomaly SmartWatchDataGenerator g =
       (Inr (dict_keys (anomaly_types SmartWatchDataGenerator) ! i), stl g)"
proof -
  have len: "length (dict_keys (anomaly_types SmartWatchDataGenerator)) = 10"
    by (simp add: SmartWatchDataGenerator_def dict_keys_def)
  have b: "bisect cum x 9 \<le> 9" for cum x
    unfolding bisect_def by (rule order_trans[OF length_takeWhile_le]) simp
  have "select_anomaly SmartWatchDataGenerator g =
       (Inr (dict_keys (anomaly_types SmartWatchDataGenerator) !
          bisect (accumulate 0 [0.05, 0.03, 0.04, 0.03, 0.02, 0.04, 0.03, 0.06, 0.04, 0.02])
            (real (shd g mod 2 ^ 53) / 2 ^ 53 * 0.36) 9), stl g)"
    unfolding select_anomaly_def Let_def weights_eq
    by (simp add: random_choices_def len prog_return_def prog_bind_def random_random_def list_iloc_def prog_lift_def)
  with b show ?thesis by blast
qed

lemma in_range_randint [simp]:
  "a \<le> b \<Longrightarrow> in_range Integer (IntRange a b) (PInt (randint_value a b g))"
  using randint_value_bounds[of a b g] by simp

lemma in_range_uniform_float [simp]:
  assumes "a \<le> b" "one_decimal a" "one_decimal b"
  shows "in_range Continuous (FloatRange a b) (PFloat (uniform_value a b g))"
proof -
  have "a = real_of_int \<lfloor>a * 10\<rfloor> / 10" "b = real_of_int \<lfloor>b * 10\<rfloor> / 10"
    using assms(2,3) unfolding one_decimal_def by linarith+
  from uniform_value_bounds[OF this assms(1)] show ?thesis
    by (simp add: one_decimal_uniform_value)
qed

lemma in_range_uniform_int [simp]:
  assumes "a \<le> b" "x = real_of_int a" "y = real_of_int b"
  shows "in_range Continuous (IntRange a b) (PFloat (uniform_value x y g))"
proof -
  have "x = real_of_int (a * 10) / 10" "y = real_of_int (b * 10) / 10"
    using assms(2,3) by simp_all
  moreover have "x \<le> y" using assms by simp
  ultimately show ?thesis
    using uniform_value_bounds[of x "a * 10" y "b * 10" g] assms(2,3)
    by (simp add: one_decimal_uniform_value)
qed

lemma one_decimal_numerals [simp]:
  "one_decimal (361 / 10)" "one_decimal (186 / 5)" "one_decimal (13 / 2)" "one_decimal 9"
  "one_decimal (75 / 2)" "one_decimal (79 / 2)" "one_decimal 35" "one_decimal 36"
  "one_decimal 3" "one_decimal (11 / 2)" "one_decimal 10" "one_decimal 12"
  by (simp_all add: one_decimal_def)

lemma base_valid:
  "\<exists>data. base_reading SmartWatchDataGenerator ts g = (Inr data, stl (stl (stl (stl (stl (stl (stl (stl g))))))))
      \<and> valid_reading None data"
  unfolding base_reading_eq
  by (simp add: valid_reading_def dict_keys_def reading_keys_def metric_names_def sampled_from_def
       SmartWatchDataGenerator_def normal_ok_def normal_kind_def del: in_range.simps)

lemma prog_bind_base:
  "prog_bind (base_reading SmartWatchDataGenerator ts) f g =
     f (projr (fst (base_reading SmartWatchDataGenerator ts g))) (stl (stl (stl (stl (stl (stl (stl (stl g))))))))"
  by (simp add: prog_bind_def base_reading_eq)

lemma anomaly_names:
  "dict_keys (anomaly_types SmartWatchDataGenerator) =
     [''high_heart_rate'', ''low_heart_rate'', ''low_oxygen'', ''high_temperature'',
      ''low_temperature'', ''high_bp'', ''low_bp'', ''high_stress'', ''poor_sleep'',
      ''excessive_sleep'']"
  by (simp add: SmartWatchDataGenerator_def dict_keys_def)

lemma apply_known:
  assumes "n \<in> set (dict_keys (anomaly_types SmartWatchDataGenerator))"
  shows "\<exists>data g3.
           prog_bind (base_reading SmartWatchDataGenerator ts)
             (\<lambda>data. prog_bind (prog_lift (dict_getitem (anomaly_types SmartWatchDataGenerator) n))
                        (\<lambda>cfg. apply_anomaly cfg data)) g1 = (Inr data, g3)
           \<and> valid_reading (Some n) data"
proof -
  have cases: "n = ''high_heart_rate'' \<or> n = ''low_heart_rate'' \<or> n = ''low_oxygen'' \<or>
     n = ''high_temperature'' \<or> n = ''low_temperature'' \<or> n = ''high_bp'' \<or> n = ''low_bp'' \<or>
     n = ''high_stress'' \<or> n = ''poor_sleep'' \<or> n = ''excessive_sleep''"
    using assms unfolding anomaly_names by simp
  from cases show ?thesis
    unfolding prog_bind_base base_reading_eq
    by (elim disjE)
       (simp_all add: SmartWatchDataGenerator_def dict_getitem_def gen_simps prog_return_def
        valid_reading_def dict_keys_def reading_keys_def metric_names_def sampled_from_def
        normal_ok_def normal_kind_def override_of_def override_ok_def
        del: in_range.simps randint_range.simps uniform_range.simps)
qed

lemma select_anomaly_known:
  "\<exists>n \<in> set (dict_keys (anomaly_types SmartWatchDataGenerator)).
      select_anomaly SmartWatchDataGenerator g = (Inr n, stl g)"
proof -
  obtain i where i: "i \<le> 9"
    "select_anomaly SmartWatchDataGenerator g =
       (Inr (dict_keys (anomaly_types SmartWatchDataGenerator) ! i), stl g)"
    using select_anomaly_eq by blast
  have "length (dict_keys (anomaly_types SmartWatchDataGenerator)) = 10"
    by (simp add: anomaly_names)
  with i(1) have "dict_keys (anomaly_types SmartWatchDataGenerator) ! i
      \<in> set (dict_keys (anomaly_types SmartWatchDataGenerator))"
    by (intro nth_mem) simp
  with i(2) show ?thesis by blast
qed

lemma choose_anomaly_cases:
  "(fa = None \<and> (\<exists>g1. choose_anomaly SmartWatchDataGenerator fa g = (Inr (False, None), g1)))
   \<or> (\<not> truthy fa \<and> (\<exists>n \<in> set (dict_keys (anomaly_types SmartWatchDataGenerator)).
         \<exists>g1. choose_anomaly SmartWatchDataGenerator fa g = (Inr (True, Some n), g1)))
   \<or> (truthy fa \<and> choose_anomaly SmartWatchDataGenerator fa g = (Inr (True, fa), g))"
proof (cases "truthy fa")
  case True
  then obtain s where "fa = Some s" "s \<noteq> []" by (cases fa) auto
  then show ?thesis
    by (simp add: choose_anomaly_def prog_return_def)
next
  case False
  show ?thesis
  proof (cases fa)
    case None
    obtain n where n: "n \<in> set (dict_keys (anomaly_types SmartWatchDataGenerator))"
      "select_anomaly SmartWatchDataGenerator (stl g) = (Inr n, stl (stl g))"
      using select_anomaly_known[of "stl g"] by blast
    show ?thesis
    proof (cases "real (shd g mod 2 ^ 53) / 2 ^ 53 < 0.15")
      case True
      with None n have "choose_anomaly SmartWatchDataGenerator fa g = (Inr (True, Some n), stl (stl g))"
        by (simp add: choose_anomaly_def should_trigger_anomaly_def prog_bind_def prog_return_def
            random_random_def)
      with n(1) False show ?thesis by blast
    next
      case nt: False
      with None have "choose_anomaly SmartWatchDataGenerator fa g = (Inr (False, None), stl g)"
        by (simp add: choose_anomaly_def should_trigger_anomaly_def prog_bind_def prog_return_def
            random_random_def)
      with None show ?thesis by blast
    qed
  next
    case (Some s)
    obtain n where n: "n \<in> set (dict_keys (anomaly_types SmartWatchDataGenerator))"
      "select_anomaly SmartWatchDataGenerator g = (Inr n, stl g)"
      using select_anomaly_known[of g] by blast
    from Some False n(2)
    have "choose_anomaly SmartWatchDataGenerator fa g = (Inr (True, Some n), stl g)"
      by (simp add: choose_anomaly_def prog_bind_def prog_return_def)
    with n(1) False show ?thesis by blast
  qed
qed

lemma generate_reading_unfold:
  "choose_anomaly SmartWatchDataGenerator fa g = (Inr (b, a), g1) \<Longrightarrow>
   generate_reading SmartWatchDataGenerator now ts fa g =
     prog_bind (base_reading SmartWatchDataGenerator (case ts of None \<Rightarrow> now | Some t \<Rightarrow> t))
       (\<lambda>data. if b \<and> truthy a
               then prog_bind (prog_lift (dict_getitem (anomaly_types SmartWatchDataGenerator) (the a)))
                      (\<lambda>anomaly_config. apply_anomaly anomaly_config data)
               else prog_return data) g1"
  by (simp add: generate_reading_def Let_def prog_bind_def)

lemma truthy_known:
  "n \<in> set (dict_keys (anomaly_types SmartWatchDataGenerator)) \<Longrightarrow> truthy (Some n)"
  unfolding anomaly_names by auto

lemma generate_forced_unknown:
  assumes "s \<noteq> []" "s \<notin> set (dict_keys (anomaly_types SmartWatchDataGenerator))"
  shows "generate_reading SmartWatchDataGenerator now ts (Some s) g
          = (Inl (KeyError s), stl (stl (stl (stl (stl (stl (stl (stl g))))))))"
proof -
  have c: "choose_anomaly SmartWatchDataGenerator (Some s) g = (Inr (True, Some s), g)"
    using assms(1) by (simp add: choose_anomaly_def prog_return_def)
  have "map_of (anomaly_types SmartWatchDataGenerator) s = None"
    using assms(2) by (simp add: dict_keys_def map_of_eq_None_iff)
  then show ?thesis
    using assms(1) unfolding generate_reading_unfold[OF c] prog_bind_base
    by (simp add: dict_getitem_def prog_lift_def)
qed

text \<open>Every call either fails on an unknown forced name or returns a valid reading.\<close>

lemma generate_reading_cases:
  "(\<exists>s g'. fa = Some s \<and> s \<noteq> [] \<and> s \<notin> set (dict_keys (anomaly_types SmartWatchDataGenerator))
        \<and> generate_reading SmartWatchDataGenerator now ts fa g = (Inl (KeyError s), g'))
   \<or> (\<exists>b a g1 data g'.
        choose_anomaly SmartWatchDataGenerator fa g = (Inr (b, a), g1)
        \<and> generate_reading SmartWatchDataGenerator now ts fa g = (Inr data, g')
        \<and> valid_reading (if b then a else None) data)"
proof -
  let ?t = "case ts of None \<Rightarrow> now | Some t \<Rightarrow> t"
  have known: "\<exists>data g'. generate_reading SmartWatchDataGenerator now ts fa g = (Inr data, g')
        \<and> valid_reading (Some n) data"
    if "choose_anomaly SmartWatchDataGenerator fa g = (Inr (True, Some n), g1)"
      and "n \<in> set (dict_keys (anomaly_types SmartWatchDataGenerator))" for n g1
    using apply_known[OF that(2), of ?t g1] truthy_known[OF that(2)]
    unfolding generate_reading_unfold[OF that(1)] by simp
  consider
    (none) g1 where "fa = None" "choose_anomaly SmartWatchDataGenerator fa g = (Inr (False, None), g1)"
    | (sel) n g1 where "n \<in> set (dict_keys (anomaly_types SmartWatchDataGenerator))"
         "choose_anomaly SmartWatchDataGenerator fa g = (Inr (True, Some n), g1)"
    | (forced) "truthy fa" "choose_anomaly SmartWatchDataGenerator fa g = (Inr (True, fa), g)"
    using choose_anomaly_cases[of fa g] by blast
  then show ?thesis
  proof cases
    case none
    from base_valid[of ?t g1] obtain data where
      "base_reading SmartWatchDataGenerator ?t g1
         = (Inr data, stl (stl (stl (stl (stl (stl (stl (stl g1))))))))" "valid_reading None data"
      by blast
    then have "generate_reading SmartWatchDataGenerator now ts fa g
         = (Inr data, stl (stl (stl (stl (stl (stl (stl (stl g1))))))))"
      unfolding generate_reading_unfold[OF none(2)] by (simp add: prog_bind_def prog_return_def)
    with none(2) \<open>valid_reading None data\<close> show ?thesis by auto
  next
    case sel
    from known[OF sel(2,1)] sel(2) show ?thesis by auto
  next
    case forced
    then obtain s where s: "fa = Some s" "s \<noteq> []" by (cases fa) auto
    show ?thesis
    proof (cases "s \<in> set (dict_keys (anomaly_types SmartWatchDataGenerator))")
      case True
      from known[OF _ True] forced(2) s(1) show ?thesis by auto
    next
      case False
      from generate_forced_unknown[OF s(2) False, of now ts g] s(1) False s(2) show ?thesis by blast
    qed
  qed
qed

section \<open>Properties of the statistics engine\<close>

text \<open>
  Claim C1 asks for one anomaly counter for each of ten detection rules, among them
  \<^verbatim>\<open>poor_sleep\<close> (sleep below 6.5 hours) and \<^verbatim>\<open>excessive_sleep\<close> (sleep above 9 hours).
  The function evaluated on a series of one reading with 4 hours of sleep and one with
  10.5 hours: the \<^verbatim>\<open>anomalies\<close> dictionary holds the eight other counters and no counter
  for either sleep rule, and the total is 0.
\<close>

theorem sleep_rules_not_counted:
  "report_entry [short_sleeper, long_sleeper] ''anomalies''
       = Some (PDict [(''high_heart_rate'', PInt 0), (''low_heart_rate'', PInt 0),
                      (''low_oxygen'', PInt 0), (''high_temp'', PInt 0), (''low_temp'', PInt 0),
                      (''high_bp'', PInt 0), (''low_bp'', PInt 0), (''high_stress'', PInt 0)])
   \<and> report_entry [short_sleeper, long_sleeper] ''total_anomalies'' = Some (PInt 0)
   \<and> report_count [short_sleeper, long_sleeper] ''poor_sleep'' = None
   \<and> report_count [short_sleeper, long_sleeper] ''excessive_sleep'' = None
   \<and> sleep_hours short_sleeper < 6.5 \<and> 9.0 < sleep_hours long_sleeper"
proof -
  have ne: "[short_sleeper, long_sleeper] \<noteq> []" by simp
  have "report_count [short_sleeper, long_sleeper] ''poor_sleep'' = None"
    by (rule report_count_unknown[OF ne]) (simp add: counted_rules_def)
  moreover have "report_count [short_sleeper, long_sleeper] ''excessive_sleep'' = None"
    by (rule report_count_unknown[OF ne]) (simp add: counted_rules_def)
  ultimately show ?thesis
    unfolding report_entry_load[OF ne] stats_literal_load[OF ne]
    by (simp add: counted_rules_def rule_count_def short_sleeper_def long_sleeper_def calm_def)
qed

text \<open>
  Claim C2 says that mean, min and max are computed for every metric and a standard
  deviation for the continuous metrics whenever there is more than one reading. On a
  series of two readings the entry for \<^verbatim>\<open>spo2\<close>, a continuous metric, has no standard
  deviation, the entry for \<^verbatim>\<open>stress_level\<close> has no minimum, and \<^verbatim>\<open>steps\<close> has no entry
  but its total.
\<close>

theorem spo2_has_no_std_counterexample:
  "report_entry [calm, strained] ''spo2''
      = Some (PDict [(''avg'', PNp (NpRound1 (NpMean [98, 97.4]))),
                     (''min'', PNp (NpRound1 (NpCell 97.4))),
                     (''max'', PNp (NpRound1 (NpCell 98)))])
   \<and> report_entry [calm, strained] ''stress_level''
      = Some (PDict [(''avg'', PNp (NpRound1 (NpMean [3, 8]))), (''max'', PInt 8)])
   \<and> report_entry [calm, strained] ''steps'' = None
   \<and> report_entry [calm, strained] ''total_steps'' = Some (PInt 40)"
proof -
  have ne: "[calm, strained] \<noteq> []" by simp
  show ?thesis
    unfolding report_entry_load[OF ne] stats_literal_load[OF ne]
    by (simp add: calm_def strained_def ints_def spo2_cells_def spo2_min_def spo2_max_def
        wrap64_def)
qed

text \<open>
  Claim C2, amended. For every non-empty series the report holds: for \<^verbatim>\<open>heart_rate\<close>
  the mean, the minimum, the maximum and an entry \<^verbatim>\<open>std\<close>, which is the sample standard
  deviation of pandas when the series has more than one reading and \<^verbatim>\<open>nan\<close> when it has
  one; for \<^verbatim>\<open>spo2\<close> and \<^verbatim>\<open>temperature\<close> the mean, minimum and maximum; for the two blood
  pressures the mean and the range from minimum to maximum; for \<^verbatim>\<open>stress_level\<close> the mean
  and the maximum; for \<^verbatim>\<open>steps\<close> the total. Every mean and the standard deviation are the
  \<^verbatim>\<open>float64\<close> that the library computes from the cells of the column, passed through
  \<^verbatim>\<open>round(., 1)\<close>; so are the extremes of a float column, while the extremes of an integer
  column (\<^verbatim>\<open>spo2\<close> included, when all its cells are integers) are the integers
  themselves.
\<close>

theorem summarize_aggregates:
  assumes "rs \<noteq> []"
  shows "report_entry rs ''heart_rate''
           = Some (PDict [(''avg'', PNp (NpRound1 (NpMean (ints heart_rate rs)))),
                          (''min'', PInt (Min (heart_rate ` set rs))),
                          (''max'', PInt (Max (heart_rate ` set rs))),
                          (''std'', if length rs \<le> 1 then PNaN
                                    else PNp (NpRound1 (NpStd (ints heart_rate rs))))])
       \<and> report_entry rs ''spo2''
           = Some (PDict [(''avg'', PNp (NpRound1 (NpMean (spo2_cells rs)))),
                          (''min'', spo2_min rs),
                          (''max'', spo2_max rs)])
       \<and> report_entry rs ''temperature''
           = Some (PDict [(''avg'', PNp (NpRound1 (NpMean (map temperature rs)))),
                          (''min'', PNp (NpRound1 (NpCell (Min (temperature ` set rs))))),
                          (''max'', PNp (NpRound1 (NpCell (Max (temperature ` set rs)))))])
       \<and> report_entry rs ''blood_pressure''
           = Some (PDict [(''systolic_avg'', PNp (NpRound1 (NpMean (ints systolic_bp rs)))),
                          (''diastolic_avg'', PNp (NpRound1 (NpMean (ints diastolic_bp rs)))),
                          (''systolic_range'', PFmt [PInt (Min (systolic_bp ` set rs)), PStr ''-'',
                                                     PInt (Max (systolic_bp ` set rs))]),
                          (''diastolic_range'', PFmt [PInt (Min (diastolic_bp ` set rs)), PStr ''-'',
                                                      PInt (Max (diastolic_bp ` set rs))])])
       \<and> report_entry rs ''stress_level''
           = Some (PDict [(''avg'', PNp (NpRound1 (NpMean (ints stress_level rs)))),
                          (''max'', PInt (Max (stress_level ` set rs)))])
       \<and> report_entry rs ''total_steps'' = Some (PInt (wrap64 (sum_list (map steps rs))))"
  unfolding report_entry_load[OF assms] stats_literal_load[OF assms] by simp

text \<open>The amended C2 on a series of one reading; the heart rate entry on a series of
  three readings with heart rates 59, 61 and 63; and the \<^verbatim>\<open>spo2\<close> entry on a series of
  two readings whose \<^verbatim>\<open>spo2\<close> cells are the integers 88 and 91.\<close>

theorem summarize_aggregates_witness:
  "[calm] \<noteq> []
   \<and> report_entry [calm] ''heart_rate''
       = Some (PDict [(''avg'', PNp (NpRound1 (NpMean [70]))), (''min'', PInt 70),
                      (''max'', PInt 70), (''std'', PNaN)])
   \<and> report_entry [calm] ''spo2''
       = Some (PDict [(''avg'', PNp (NpRound1 (NpMean [98]))),
                      (''min'', PNp (NpRound1 (NpCell 98))),
                      (''max'', PNp (NpRound1 (NpCell 98)))])
   \<and> report_entry [calm] ''temperature''
       = Some (PDict [(''avg'', PNp (NpRound1 (NpMean [36.6]))),
                      (''min'', PNp (NpRound1 (NpCell 36.6))),
                      (''max'', PNp (NpRound1 (NpCell 36.6)))])
   \<and> report_entry [calm] ''stress_level''
       = Some (PDict [(''avg'', PNp (NpRound1 (NpMean [3]))), (''max'', PInt 3)])
   \<and> report_entry [calm] ''total_steps'' = Some (PInt 30)
   \<and> [calm \<lparr> heart_rate := 59 \<rparr>, calm \<lparr> heart_rate := 61 \<rparr>, calm \<lparr> heart_rate := 63 \<rparr>] \<noteq> []
   \<and> report_entry [calm \<lparr> heart_rate := 59 \<rparr>, calm \<lparr> heart_rate := 61 \<rparr>,
                     calm \<lparr> heart_rate := 63 \<rparr>] ''heart_rate''
       = Some (PDict [(''avg'', PNp (NpRound1 (NpMean [59, 61, 63]))), (''min'', PInt 59),
                      (''max'', PInt 63), (''std'', PNp (NpRound1 (NpStd [59, 61, 63])))])
   \<and> [calm \<lparr> spo2 := IntCell 88 \<rparr>, calm \<lparr> spo2 := IntCell 91 \<rparr>] \<noteq> []
   \<and> report_entry [calm \<lparr> spo2 := IntCell 88 \<rparr>, calm \<lparr> spo2 := IntCell 91 \<rparr>] ''spo2''
       = Some (PDict [(''avg'', PNp (NpRound1 (NpMean [88, 91]))), (''min'', PInt 88),
                      (''max'', PInt 91)])"
  using summarize_aggregates[of "[calm]"]
    summarize_aggregates[of "[calm \<lparr> heart_rate := 59 \<rparr>, calm \<lparr> heart_rate := 61 \<rparr>,
                             calm \<lparr> heart_rate := 63 \<rparr>]"]
    summarize_aggregates[of "[calm \<lparr> spo2 := IntCell 88 \<rparr>, calm \<lparr> spo2 := IntCell 91 \<rparr>]"]
  by (simp add: calm_def ints_def spo2_cells_def spo2_min_def spo2_max_def wrap64_def)

text \<open>
  Claim C3 says that the function fails with a typed data error, and with no other kind
  of failure, when the series is empty or lacks a required metric. On the empty series
  the failure is the built-in \<^verbatim>\<open>IndexError\<close> of \<^verbatim>\<open>iloc[0]\<close> on line 21.
\<close>

theorem empty_series_counterexample:
  "analyze_data_statistics (load_health_data []) = Inl IndexError"
  by (simp add: analyze_data_statistics_def stats_literal_def load_health_data_def
      df_getitem_def dict_getitem_def and_then_def list_iloc_def)

text \<open>
  Claim C3, amended. On a well-formed frame the function raises \<^verbatim>\<open>IndexError\<close> when
  the frame has no rows (and has a \<^verbatim>\<open>timestamp\<close> column); when one of the eight columns
  it reads is missing it raises \<^verbatim>\<open>IndexError\<close> or the \<^verbatim>\<open>KeyError\<close> of a missing column;
  and on every frame with at least one row and all nine columns of a reading it returns
  a report. The failures are Python's built-in exceptions.
\<close>

theorem summarize_failure_modes:
  assumes "well_formed df"
  shows "(index_len df = 0 \<and> has_column df ''timestamp''
            \<longrightarrow> analyze_data_statistics df = Inl IndexError)
       \<and> ((\<exists>c \<in> set read_columns. \<not> has_column df c)
            \<longrightarrow> (\<exists>e. analyze_data_statistics df = Inl e \<and>
                     (e = IndexError \<or> (\<exists>c \<in> set read_columns. \<not> has_column df c \<and> e = KeyError c))))
       \<and> (0 < index_len df \<and> (\<forall>c \<in> set reading_keys. has_column df c)
            \<longrightarrow> (\<exists>stats. analyze_data_statistics df = Inr stats))"
proof (intro conjI impI)
  assume "index_len df = 0 \<and> has_column df ''timestamp''"
  then have "first_failure df = Some IndexError" by (simp add: first_failure_def)
  with analyze_result[OF assms] show "analyze_data_statistics df = Inl IndexError" by simp
next
  assume missing: "\<exists>c \<in> set read_columns. \<not> has_column df c"
  have "\<exists>e. first_failure df = Some e \<and>
          (e = IndexError \<or> (\<exists>c \<in> set read_columns. \<not> has_column df c \<and> e = KeyError c))"
  proof (cases "has_column df ''timestamp''")
    case False
    then show ?thesis by (simp add: first_failure_def read_columns_def)
  next
    case ts: True
    show ?thesis
    proof (cases "index_len df = 0")
      case True
      with ts show ?thesis by (simp add: first_failure_def)
    next
      case False
      from missing ts obtain c where "c \<in> set (tl read_columns)" "\<not> has_column df c"
        by (auto simp: read_columns_def)
      then have "find (\<lambda>c. \<not> has_column df c) (tl read_columns) \<noteq> None"
        by (auto simp: find_None_iff)
      then obtain c' where f: "find (\<lambda>c. \<not> has_column df c) (tl read_columns) = Some c'"
        by blast
      then have "\<not> has_column df c'" "c' \<in> set (tl read_columns)"
        by (auto simp: find_Some_iff)
      then have "c' \<in> set read_columns" "\<not> has_column df c'"
        by (auto simp: read_columns_def)
      with ts False f show ?thesis by (auto simp: first_failure_def)
    qed
  qed
  then obtain e where e: "first_failure df = Some e"
    "e = IndexError \<or> (\<exists>c \<in> set read_columns. \<not> has_column df c \<and> e = KeyError c)"
    by blast
  from analyze_result[OF assms] e(1) have "analyze_data_statistics df = Inl e" by simp
  with e(2) show "\<exists>e. analyze_data_statistics df = Inl e \<and>
      (e = IndexError \<or> (\<exists>c \<in> set read_columns. \<not> has_column df c \<and> e = KeyError c))"
    by blast
next
  assume ok: "0 < index_len df \<and> (\<forall>c \<in> set reading_keys. has_column df c)"
  then have "find (\<lambda>c. \<not> has_column df c) (tl read_columns) = None"
    by (simp add: find_None_iff read_columns_def reading_keys_def)
  with ok have "first_failure df = None"
    by (simp add: first_failure_def reading_keys_def)
  with analyze_result[OF assms] show "\<exists>stats. analyze_data_statistics df = Inr stats" by simp
qed

text \<open>The amended C3 on the empty series, on a one-row frame without the
  \<^verbatim>\<open>heart_rate\<close> column, and on a one-row frame with all columns.\<close>

theorem summarize_failure_modes_witness:
  "well_formed (load_health_data [])
   \<and> index_len (load_health_data []) = 0 \<and> has_column (load_health_data []) ''timestamp''
   \<and> analyze_data_statistics (load_health_data []) = Inl IndexError
   \<and> well_formed (without_column ''heart_rate'' (load_health_data [calm]))
   \<and> ''heart_rate'' \<in> set read_columns
   \<and> \<not> has_column (without_column ''heart_rate'' (load_health_data [calm])) ''heart_rate''
   \<and> analyze_data_statistics (without_column ''heart_rate'' (load_health_data [calm]))
        = Inl (KeyError ''heart_rate'')
   \<and> well_formed (load_health_data [calm])
   \<and> 0 < index_len (load_health_data [calm])
   \<and> list_all (has_column (load_health_data [calm])) reading_keys
   \<and> (\<exists>stats. analyze_data_statistics (load_health_data [calm]) = Inr stats)"
proof -
  have wf1: "well_formed (load_health_data [])" by (rule well_formed_load)
  have wf2: "well_formed (without_column ''heart_rate'' (load_health_data [calm]))"
    by (simp add: well_formed_def without_column_def load_health_data_def dict_keys_def
        metric_columns_def number_column_def calm_def)
  have wf3: "well_formed (load_health_data [calm])" by (rule well_formed_load)
  have e: "index_len (load_health_data []) = 0 \<and> has_column (load_health_data []) ''timestamp''"
    by (simp add: load_health_data_def has_column_def dict_keys_def)
  have m: "''heart_rate'' \<in> set read_columns
     \<and> \<not> has_column (without_column ''heart_rate'' (load_health_data [calm])) ''heart_rate''"
    by (simp add: read_columns_def has_column_def without_column_def load_health_data_def
        dict_keys_def)
  have m2: "analyze_data_statistics (without_column ''heart_rate'' (load_health_data [calm]))
        = Inl (KeyError ''heart_rate'')"
    by (simp add: analyze_data_statistics_def stats_literal_def heart_rate_entry_def
        without_column_def load_health_data_def df_getitem_def dict_getitem_def and_then_def
        list_iloc_def)
  have k: "0 < index_len (load_health_data [calm])
     \<and> (\<forall>c \<in> set reading_keys. has_column (load_health_data [calm]) c)"
    by (simp add: reading_keys_def has_column_def load_health_data_def dict_keys_def)
  from k have k': "list_all (has_column (load_health_data [calm])) reading_keys"
    by (simp add: list_all_iff)
  from summarize_failure_modes[OF wf1] summarize_failure_modes[OF wf2]
    summarize_failure_modes[OF wf3] wf1 wf2 wf3 e m m2 k k'
  show ?thesis by blast
qed

text \<open>
  Claim C5 says that the total anomaly count is the sum of all per-rule counts, so
  that a reading which satisfies two rule conditions contributes 2. The rules are the
  ten of the rule table. The function evaluated on the series of one reading with a
  systolic pressure of 135 and 4 hours of sleep: the reading satisfies two rule
  conditions (\<^verbatim>\<open>high_bp\<close> and \<^verbatim>\<open>poor_sleep\<close>), the per-rule counts of the table sum to 2,
  and the report's total is 1, because the function counts eight of the ten rules.
\<close>

theorem total_misses_sleep_rules:
  "systolic_bp restless = 135 \<and> sleep_hours restless = 4
   \<and> spec_rules_satisfied restless = 2
   \<and> spec_total [restless] = 2
   \<and> report_entry [restless] ''anomalies''
       = Some (PDict [(''high_heart_rate'', PInt 0), (''low_heart_rate'', PInt 0),
                      (''low_oxygen'', PInt 0), (''high_temp'', PInt 0), (''low_temp'', PInt 0),
                      (''high_bp'', PInt 1), (''low_bp'', PInt 0), (''high_stress'', PInt 0)])
   \<and> report_entry [restless] ''total_anomalies'' = Some (PInt 1)"
proof -
  have ne: "[restless] \<noteq> []" by simp
  show ?thesis
    unfolding report_entry_load[OF ne] stats_literal_load[OF ne]
    by (simp add: counted_rules_def rule_count_def spec_rules_satisfied_def spec_total_def
        spec_rule_table_def restless_def calm_def)
qed

text \<open>
  Claim C6. The threshold of \<^verbatim>\<open>high_heart_rate\<close> is strict. Inserting, anywhere into a
  series that has a report, a reading with heart rate 121 raises the counter by exactly
  1, and inserting one with heart rate 120 leaves it as it is; more generally the
  counter goes up by 1 for a heart rate above 120 and stays for one of at most 120.
  The empty series has no report; the series of the one reading has the counter 1 for
  heart rate 121 and 0 for heart rate 120.
\<close>

theorem threshold_exactness:
  "(xs @ ys \<noteq> [] \<longrightarrow>
      (\<exists>n. report_count (xs @ ys) ''high_heart_rate'' = Some n
         \<and> (heart_rate r = 121 \<longrightarrow> report_count (xs @ r # ys) ''high_heart_rate'' = Some (n + 1))
         \<and> (heart_rate r = 120 \<longrightarrow> report_count (xs @ r # ys) ''high_heart_rate'' = Some n)
         \<and> (120 < heart_rate r \<longrightarrow> report_count (xs @ r # ys) ''high_heart_rate'' = Some (n + 1))
         \<and> (heart_rate r \<le> 120 \<longrightarrow> report_count (xs @ r # ys) ''high_heart_rate'' = Some n)))
   \<and> (xs @ ys = [] \<longrightarrow>
         report_count (xs @ ys) ''high_heart_rate'' = None
       \<and> (heart_rate r = 121 \<longrightarrow> report_count (xs @ r # ys) ''high_heart_rate'' = Some 1)
       \<and> (heart_rate r = 120 \<longrightarrow> report_count (xs @ r # ys) ''high_heart_rate'' = Some 0))"
proof -
  have rule: "map_of counted_rules ''high_heart_rate'' = Some (\<lambda>r. 120 < heart_rate r)"
    by (simp add: counted_rules_def)
  have "xs @ r # ys \<noteq> []" by simp
  then have after: "report_count (xs @ r # ys) ''high_heart_rate''
                  = Some (rule_count (\<lambda>r. 120 < heart_rate r) (xs @ r # ys))"
    by (rule report_count_load[OF _ rule])
  have step: "rule_count (\<lambda>r. 120 < heart_rate r) (xs @ r # ys)
          = rule_count (\<lambda>r. 120 < heart_rate r) (xs @ ys) + (if 120 < heart_rate r then 1 else 0)"
    by (simp add: rule_count_def)
  have nonempty: "\<exists>n. report_count (xs @ ys) ''high_heart_rate'' = Some n
         \<and> (heart_rate r = 121 \<longrightarrow> report_count (xs @ r # ys) ''high_heart_rate'' = Some (n + 1))
         \<and> (heart_rate r = 120 \<longrightarrow> report_count (xs @ r # ys) ''high_heart_rate'' = Some n)
         \<and> (120 < heart_rate r \<longrightarrow> report_count (xs @ r # ys) ''high_heart_rate'' = Some (n + 1))
         \<and> (heart_rate r \<le> 120 \<longrightarrow> report_count (xs @ r # ys) ''high_heart_rate'' = Some n)"
    if "xs @ ys \<noteq> []"
  proof -
    from that have "report_count (xs @ ys) ''high_heart_rate''
                  = Some (rule_count (\<lambda>r. 120 < heart_rate r) (xs @ ys))"
      by (rule report_count_load[OF _ rule])
    with after step show ?thesis by simp
  qed
  have empty: "report_count (xs @ ys) ''high_heart_rate'' = None
       \<and> (heart_rate r = 121 \<longrightarrow> report_count (xs @ r # ys) ''high_heart_rate'' = Some 1)
       \<and> (heart_rate r = 120 \<longrightarrow> report_count (xs @ r # ys) ''high_heart_rate'' = Some 0)"
    if "xs @ ys = []"
  proof -
    have "report_count [] ''high_heart_rate'' = None"
      by (simp add: report_count_def report_entry_def analyze_data_statistics_def
          stats_literal_def load_health_data_def df_getitem_def dict_getitem_def and_then_def
          list_iloc_def)
    with that after show ?thesis by (simp add: rule_count_def)
  qed
  from nonempty empty show ?thesis by blast
qed

text \<open>C6 for a reading inserted between two others and for a reading put into the
  empty series, each once with heart rate 121 and once with 120.\<close>

theorem threshold_exactness_witness:
  "[calm] @ [strained] \<noteq> []
   \<and> heart_rate (calm \<lparr> heart_rate := 121 \<rparr>) = 121
   \<and> heart_rate (calm \<lparr> heart_rate := 120 \<rparr>) = 120
   \<and> report_count ([calm] @ [strained]) ''high_heart_rate'' = Some 0
   \<and> report_count ([calm] @ calm \<lparr> heart_rate := 121 \<rparr> # [strained]) ''high_heart_rate'' = Some 1
   \<and> report_count ([calm] @ calm \<lparr> heart_rate := 120 \<rparr> # [strained]) ''high_heart_rate'' = Some 0
   \<and> ([]::reading list) @ [] = []
   \<and> report_count ([] @ []) ''high_heart_rate'' = None
   \<and> report_count ([] @ calm \<lparr> heart_rate := 121 \<rparr> # []) ''high_heart_rate'' = Some 1
   \<and> report_count ([] @ calm \<lparr> heart_rate := 120 \<rparr> # []) ''high_heart_rate'' = Some 0"
proof -
  have ne: "[calm] @ [strained] \<noteq> []" by simp
  have e: "([]::reading list) @ [] = []" by simp
  have h1: "heart_rate (calm \<lparr> heart_rate := 121 \<rparr>) = 121" by simp
  have h0: "heart_rate (calm \<lparr> heart_rate := 120 \<rparr>) = 120" by simp
  have n0: "report_count ([calm] @ [strained]) ''high_heart_rate'' = Some 0"
    using report_count_load[of "[calm] @ [strained]" "''high_heart_rate''" "\<lambda>r. 120 < heart_rate r"]
    by (simp add: counted_rules_def rule_count_def calm_def strained_def)
  from threshold_exactness[of "[calm]" "[strained]" "calm \<lparr> heart_rate := 121 \<rparr>"]
    threshold_exactness[of "[calm]" "[strained]" "calm \<lparr> heart_rate := 120 \<rparr>"]
    threshold_exactness[of "[]" "[]" "calm \<lparr> heart_rate := 121 \<rparr>"]
    threshold_exactness[of "[]" "[]" "calm \<lparr> heart_rate := 120 \<rparr>"]
    ne e h1 h0 n0
  show ?thesis by simp
qed

text \<open>
  Claim C9 says that the function applied twice to the same series yields identical
  reports. The function run twice on the frame of a series of one reading: both runs
  return, and the two reports are not equal in the sense of Python's \<^verbatim>\<open>==\<close>, because the
  entry \<^verbatim>\<open>std\<close> of \<^verbatim>\<open>heart_rate\<close> is \<^verbatim>\<open>nan\<close> in each and \<^verbatim>\<open>nan\<close> equals nothing.
\<close>

theorem single_reading_reports_unequal:
  "fst (analyze_data_statistics_obj 0 [load_health_data [calm]])
      = analyze_data_statistics (load_health_data [calm])
   \<and> fst (analyze_data_statistics_obj 0
             (snd (analyze_data_statistics_obj 0 [load_health_data [calm]])))
      = analyze_data_statistics (load_health_data [calm])
   \<and> report_entry [calm] ''heart_rate''
      = Some (PDict [(''avg'', PNp (NpRound1 (NpMean [70]))), (''min'', PInt 70),
                     (''max'', PInt 70), (''std'', PNaN)])
   \<and> \<not> py_eq (projr (fst (analyze_data_statistics_obj 0 [load_health_data [calm]])))
              (projr (fst (analyze_data_statistics_obj 0
                             (snd (analyze_data_statistics_obj 0 [load_health_data [calm]])))))"
proof -
  let ?st = "[load_health_data [calm]]"
  have ne: "[calm] \<noteq> []" by simp
  from analyze_obj_pure[of 0] obtain ext1 where
    1: "analyze_data_statistics_obj 0 ?st = (analyze_data_statistics (?st ! 0), ?st @ ext1)"
    unfolding reads_only_def by (metis length_Cons zero_less_Suc)
  from analyze_obj_pure[of 0] obtain ext2 where
    2: "analyze_data_statistics_obj 0 (?st @ ext1)
          = (analyze_data_statistics ((?st @ ext1) ! 0), (?st @ ext1) @ ext2)"
    unfolding reads_only_def by (metis length_Cons length_append add_gr_0 zero_less_Suc)
  have hr: "report_entry [calm] ''heart_rate''
      = Some (PDict [(''avg'', PNp (NpRound1 (NpMean [70]))), (''min'', PInt 70),
                     (''max'', PInt 70), (''std'', PNaN)])"
    unfolding report_entry_load[OF ne] stats_literal_load[OF ne]
    by (simp add: calm_def ints_def)
  from report_single_nan[of calm] obtain rep where
    rep: "analyze_data_statistics (load_health_data [calm]) = Inr rep" "\<not> py_eq rep rep"
    by blast
  from 1 2 hr rep show ?thesis by simp
qed

text \<open>
  Claim C9, amended. Run on a store that holds the caller's frame at address \<open>r\<close>, the
  function returns what the store-free function computes from the contents of that frame
  alone; run a second time on the store it left, it has the same outcome, the same
  exception or a report with the same entries; and each run leaves a store that extends
  the one it started from, so that the caller's frame (like every other object that was
  there) is unchanged. When the frame holds a series of at least two readings the two
  reports are equal in the sense of Python's \<^verbatim>\<open>==\<close>; when it holds a series of one
  reading the entry \<^verbatim>\<open>std\<close> of \<^verbatim>\<open>heart_rate\<close> is \<^verbatim>\<open>nan\<close> in both.
\<close>

theorem summarize_pure:
  assumes "r < length st"
  shows "\<exists>st1 st2.
           analyze_data_statistics_obj r st = (analyze_data_statistics (st ! r), st1)
         \<and> analyze_data_statistics_obj r st1 = (analyze_data_statistics (st ! r), st2)
         \<and> st1 ! r = st ! r \<and> st2 ! r = st ! r
         \<and> take (length st) st1 = st \<and> take (length st1) st2 = st1
         \<and> (\<forall>rs. st ! r = load_health_data rs \<and> 2 \<le> length rs \<longrightarrow>
               (\<exists>rep. analyze_data_statistics (st ! r) = Inr rep \<and> py_eq rep rep))
         \<and> (\<forall>rs. st ! r = load_health_data rs \<and> length rs = 1 \<longrightarrow>
               (\<exists>rep hr. analyze_data_statistics (st ! r) = Inr rep
                    \<and> pyval_get rep ''heart_rate'' = Some hr
                    \<and> pyval_get hr ''std'' = Some PNaN))"
proof -
  from analyze_obj_pure[of r] assms obtain ext1 where
    1: "analyze_data_statistics_obj r st = (analyze_data_statistics (st ! r), st @ ext1)"
    unfolding reads_only_def by blast
  have r1: "r < length (st @ ext1)" using assms by simp
  have same: "(st @ ext1) ! r = st ! r" using assms by (simp add: nth_append)
  from analyze_obj_pure[of r] r1 obtain ext2 where
    2: "analyze_data_statistics_obj r (st @ ext1)
          = (analyze_data_statistics ((st @ ext1) ! r), (st @ ext1) @ ext2)"
    unfolding reads_only_def by blast
  have 3: "((st @ ext1) @ ext2) ! r = st ! r" using assms by (simp add: nth_append)
  have many: "\<exists>rep. analyze_data_statistics (st ! r) = Inr rep \<and> py_eq rep rep"
    if "st ! r = load_health_data rs \<and> 2 \<le> length rs" for rs
    using that report_self_equal[of rs] by simp
  have one: "\<exists>rep hr. analyze_data_statistics (st ! r) = Inr rep
                    \<and> pyval_get rep ''heart_rate'' = Some hr
                    \<and> pyval_get hr ''std'' = Some PNaN"
    if "st ! r = load_health_data rs \<and> length rs = 1" for rs
  proof -
    from that obtain x where "rs = [x]" by (cases rs) auto
    with that report_single_nan[of x] show ?thesis by auto
  qed
  from 1 2 same 3 many one show ?thesis
    by (intro exI[of _ "st @ ext1"] exI[of _ "(st @ ext1) @ ext2"]) simp
qed

text \<open>The amended C9 on a store that holds one frame of two readings, and on a store
  that holds one frame of one reading.\<close>

theorem summarize_pure_witness:
  "0 < length [load_health_data [calm, strained]]
   \<and> (\<exists>st1 st2 rep.
         analyze_data_statistics_obj 0 [load_health_data [calm, strained]] = (Inr rep, st1)
       \<and> analyze_data_statistics_obj 0 st1 = (Inr rep, st2)
       \<and> st1 ! 0 = load_health_data [calm, strained]
       \<and> st2 ! 0 = load_health_data [calm, strained]
       \<and> take 1 st1 = [load_health_data [calm, strained]]
       \<and> take (length st1) st2 = st1
       \<and> py_eq rep rep)
   \<and> 0 < length [load_health_data [calm]]
   \<and> (\<exists>st1 st2 rep hr.
         analyze_data_statistics_obj 0 [load_health_data [calm]] = (Inr rep, st1)
       \<and> analyze_data_statistics_obj 0 st1 = (Inr rep, st2)
       \<and> st1 ! 0 = load_health_data [calm]
       \<and> st2 ! 0 = load_health_data [calm]
       \<and> take 1 st1 = [load_health_data [calm]]
       \<and> take (length st1) st2 = st1
       \<and> pyval_get rep ''heart_rate'' = Some hr
       \<and> pyval_get hr ''std'' = Some PNaN)"
proof -
  have h: "0 < length [load_health_data [calm, strained]]" by simp
  from summarize_pure[OF h] obtain st1 st2 where
    runs: "analyze_data_statistics_obj 0 [load_health_data [calm, strained]]
             = (analyze_data_statistics ([load_health_data [calm, strained]] ! 0), st1)"
          "analyze_data_statistics_obj 0 st1
             = (analyze_data_statistics ([load_health_data [calm, strained]] ! 0), st2)"
          "st1 ! 0 = [load_health_data [calm, strained]] ! 0"
          "st2 ! 0 = [load_health_data [calm, strained]] ! 0"
          "take (length [load_health_data [calm, strained]]) st1 = [load_health_data [calm, strained]]"
          "take (length st1) st2 = st1"
    and eq: "\<forall>rs. [load_health_data [calm, strained]] ! 0 = load_health_data rs \<and> 2 \<le> length rs \<longrightarrow>
               (\<exists>rep. analyze_data_statistics ([load_health_data [calm, strained]] ! 0) = Inr rep
                    \<and> py_eq rep rep)"
    by blast
  from eq have "\<exists>rep. analyze_data_statistics ([load_health_data [calm, strained]] ! 0) = Inr rep
                    \<and> py_eq rep rep"
    by (rule allE[of _ "[calm, strained]"]) simp
  then obtain rep where
    rep: "analyze_data_statistics ([load_health_data [calm, strained]] ! 0) = Inr rep" "py_eq rep rep"
    by blast
  from runs rep have two: "\<exists>st1 st2 rep.
         analyze_data_statistics_obj 0 [load_health_data [calm, strained]] = (Inr rep, st1)
       \<and> analyze_data_statistics_obj 0 st1 = (Inr rep, st2)
       \<and> st1 ! 0 = load_health_data [calm, strained]
       \<and> st2 ! 0 = load_health_data [calm, strained]
       \<and> take 1 st1 = [load_health_data [calm, strained]]
       \<and> take (length st1) st2 = st1
       \<and> py_eq rep rep"
    by auto
  have h': "0 < length [load_health_data [calm]]" by simp
  from summarize_pure[OF h'] obtain su1 su2 where
    runs': "analyze_data_statistics_obj 0 [load_health_data [calm]]
             = (analyze_data_statistics ([load_health_data [calm]] ! 0), su1)"
          "analyze_data_statistics_obj 0 su1
             = (analyze_data_statistics ([load_health_data [calm]] ! 0), su2)"
          "su1 ! 0 = [load_health_data [calm]] ! 0"
          "su2 ! 0 = [load_health_data [calm]] ! 0"
          "take (length [load_health_data [calm]]) su1 = [load_health_data [calm]]"
          "take (length su1) su2 = su1"
    and nan: "\<forall>rs. [load_health_data [calm]] ! 0 = load_health_data rs \<and> length rs = 1 \<longrightarrow>
               (\<exists>rep hr. analyze_data_statistics ([load_health_data [calm]] ! 0) = Inr rep
                    \<and> pyval_get rep ''heart_rate'' = Some hr
                    \<and> pyval_get hr ''std'' = Some PNaN)"
    by blast
  from nan have "\<exists>rep hr. analyze_data_statistics ([load_health_data [calm]] ! 0) = Inr rep
                    \<and> pyval_get rep ''heart_rate'' = Some hr
                    \<and> pyval_get hr ''std'' = Some PNaN"
    by (rule allE[of _ "[calm]"]) simp
  then obtain rep' hr where
    rep': "analyze_data_statistics ([load_health_data [calm]] ! 0) = Inr rep'"
      "pyval_get rep' ''heart_rate'' = Some hr" "pyval_get hr ''std'' = Some PNaN"
    by blast
  from runs' rep' have one: "\<exists>st1 st2 rep hr.
         analyze_data_statistics_obj 0 [load_health_data [calm]] = (Inr rep, st1)
       \<and> analyze_data_statistics_obj 0 st1 = (Inr rep, st2)
       \<and> st1 ! 0 = load_health_data [calm]
       \<and> st2 ! 0 = load_health_data [calm]
       \<and> take 1 st1 = [load_health_data [calm]]
       \<and> take (length st1) st2 = st1
       \<and> pyval_get rep ''heart_rate'' = Some hr
       \<and> pyval_get hr ''std'' = Some PNaN"
    by auto
  from h two h' one show ?thesis by blast
qed

section \<open>Properties of the generator\<close>

text \<open>
  Claim C7. For every timestamp (given or taken from the clock) and every random source,
  \<^verbatim>\<open>generate_reading\<close> with the forced anomaly \<^verbatim>\<open>"low_oxygen"\<close> returns a reading
  whose \<^verbatim>\<open>spo2\<close> lies in \<open>[85, 94]\<close>. The 15 percent trial plays no part: with a forced
  anomaly it is not even run. The value is an integer, drawn by \<^verbatim>\<open>randint\<close>.
\<close>

theorem forced_low_oxygen_spo2:
  "\<exists>data g' n.
     generate_reading SmartWatchDataGenerator now ts (Some ''low_oxygen'') g = (Inr data, g')
     \<and> map_of data ''spo2'' = Some (PInt n) \<and> 85 \<le> n \<and> n \<le> 94"
proof -
  have c: "choose_anomaly SmartWatchDataGenerator (Some ''low_oxygen'') g
            = (Inr (True, Some ''low_oxygen''), g)"
    by (simp add: choose_anomaly_def prog_return_def)
  let ?g8 = "stl (stl (stl (stl (stl (stl (stl (stl g)))))))"
  have "\<exists>data. generate_reading SmartWatchDataGenerator now ts (Some ''low_oxygen'') g
            = (Inr data, stl ?g8)
          \<and> map_of data ''spo2'' = Some (PInt (randint_value 85 94 ?g8))"
    unfolding generate_reading_unfold[OF c] prog_bind_base base_reading_eq
    by (simp add: SmartWatchDataGenerator_def dict_getitem_def gen_simps prog_return_def
        del: randint_range.simps uniform_range.simps)
  with randint_value_bounds[of 85 94 ?g8] show ?thesis by auto
qed

text \<open>The statement of C7 at a concrete clock and source.\<close>

theorem forced_low_oxygen_spo2_witness:
  "\<exists>data g' n.
     generate_reading SmartWatchDataGenerator (Datetime ''2025-01-01T00:00:00'') None
        (Some ''low_oxygen'') (sconst 0) = (Inr data, g')
     \<and> map_of data ''spo2'' = Some (PInt n) \<and> 85 \<le> n \<and> n \<le> 94"
  by (rule forced_low_oxygen_spo2)

text \<open>
  Claim C4 says that a forced anomaly name that is not a configured profile makes
  \<^verbatim>\<open>generate_reading\<close> fail with a typed configuration error and produce no reading.
  The empty string is not a configured profile, yet the call returns a reading: the
  empty string is false in Python, so line 72 selects a profile at random (here
  \<^verbatim>\<open>high_heart_rate\<close>, heart rate 120) instead of looking the name up.
\<close>

theorem empty_forced_name_counterexample:
  "[] \<notin> set (dict_keys (anomaly_types SmartWatchDataGenerator)) \<and>
   generate_reading SmartWatchDataGenerator (Datetime ''2025-01-01T00:00:00'') None (Some [])
      (sconst 0)
    = (Inr [(''timestamp'', PStr ''2025-01-01T00:00:00''), (''heart_rate'', PInt 120),
            (''spo2'', PFloat 95), (''temperature'', PFloat 36.1),
            (''systolic_bp'', PInt 110), (''diastolic_bp'', PInt 70),
            (''steps'', PInt 0), (''stress_level'', PInt 1),
            (''sleep_hours'', PFloat 6.5)],
       sconst 0)"
  by (simp add: generate_reading_def choose_anomaly_def base_reading_def prog_bind_def
      prog_return_def prog_lift_def SmartWatchDataGenerator_def dict_getitem_def
      random_randint_def random_uniform_def random_random_def select_anomaly_def
      random_choices_def bisect_def dict_keys_def and_then_def list_iloc_def
      round1_def round_half_even_def)

text \<open>
  Claim C4, amended. For every timestamp and random source, \<^verbatim>\<open>generate_reading\<close> with
  a forced anomaly name that is not empty and not one of the configured profiles raises
  the built-in \<^verbatim>\<open>KeyError\<close> for that name (from the subscript on line 91) and returns no
  reading.
\<close>

theorem unknown_forced_anomaly_KeyError:
  assumes "name \<noteq> []"
    and "name \<notin> set (dict_keys (anomaly_types SmartWatchDataGenerator))"
  shows "\<exists>g'. generate_reading SmartWatchDataGenerator now ts (Some name) g
                = (Inl (KeyError name), g')"
  using generate_forced_unknown[OF assms] by blast

text \<open>The amended C4 at the unknown name \<^verbatim>\<open>"fever"\<close>.\<close>

theorem unknown_forced_anomaly_KeyError_witness:
  "''fever'' \<noteq> [] \<and> ''fever'' \<notin> set (dict_keys (anomaly_types SmartWatchDataGenerator)) \<and>
   (\<exists>g'. generate_reading SmartWatchDataGenerator (Datetime ''2025-01-01T00:00:00'') None
            (Some ''fever'') (sconst 0) = (Inl (KeyError ''fever''), g'))"
  using unknown_forced_anomaly_KeyError[of "''fever''" "Datetime ''2025-01-01T00:00:00''" None "sconst 0"]
  by (simp add: anomaly_names)

text \<open>
  Claim C8. For every reading that \<^verbatim>\<open>generate_reading\<close> returns and every metric, the
  value lies within the metric's normal range or, when the chosen anomaly profile
  overrides the metric, within that profile's range for it. Being within a range
  (\<open>in_range\<close>) includes the kind: an integer between the bounds for an integer-kind
  range, a real between the bounds with one decimal place for a continuous-kind range.
\<close>

theorem range_containment:
  assumes "generate_reading SmartWatchDataGenerator now ts force_anomaly g = (Inr data, g')"
  shows "\<exists>is_anomaly anomaly_type g1.
           choose_anomaly SmartWatchDataGenerator force_anomaly g
             = (Inr (is_anomaly, anomaly_type), g1) \<and>
           (\<forall>m \<in> set metric_names. \<exists>v. map_of data m = Some v \<and>
               (normal_ok m v \<or>
                (\<exists>a. is_anomaly \<and> anomaly_type = Some a \<and> override_ok a m v)))"
proof -
  from generate_reading_cases[of force_anomaly now ts g] assms
  obtain b a g1 where c: "choose_anomaly SmartWatchDataGenerator force_anomaly g = (Inr (b, a), g1)"
    and v: "valid_reading (if b then a else None) data"
    by auto
  have "\<exists>v. map_of data m = Some v \<and>
          (normal_ok m v \<or> (\<exists>n. b \<and> a = Some n \<and> override_ok n m v))"
    if "m \<in> set metric_names" for m
  proof -
    from v that obtain x where x: "map_of data m = Some x"
      "sampled_from (if b then a else None) m x"
      unfolding valid_reading_def by blast
    from x(2) have "normal_ok m x \<or> (\<exists>n. b \<and> a = Some n \<and> override_ok n m x)"
      by (auto simp: sampled_from_def split: option.splits if_splits)
    with x(1) show ?thesis by blast
  qed
  with c show ?thesis by blast
qed

text \<open>C8 at a concrete call: the source of all-zero draws triggers the anomaly
  \<^verbatim>\<open>high_heart_rate\<close>.\<close>

theorem range_containment_witness:
  "generate_reading SmartWatchDataGenerator (Datetime ''2025-01-01T00:00:00'') None None (sconst 0)
    = (Inr [(''timestamp'', PStr ''2025-01-01T00:00:00''), (''heart_rate'', PInt 120),
            (''spo2'', PFloat 95), (''temperature'', PFloat 36.1),
            (''systolic_bp'', PInt 110), (''diastolic_bp'', PInt 70),
            (''steps'', PInt 0), (''stress_level'', PInt 1),
            (''sleep_hours'', PFloat 6.5)],
       sconst 0)
   \<and> (\<exists>is_anomaly anomaly_type g1.
           choose_anomaly SmartWatchDataGenerator None (sconst 0)
             = (Inr (is_anomaly, anomaly_type), g1) \<and>
           (\<forall>m \<in> set metric_names. \<exists>v.
               map_of [(''timestamp'', PStr ''2025-01-01T00:00:00''), (''heart_rate'', PInt 120),
                       (''spo2'', PFloat 95), (''temperature'', PFloat 36.1),
                       (''systolic_bp'', PInt 110), (''diastolic_bp'', PInt 70),
                       (''steps'', PInt 0), (''stress_level'', PInt 1),
                       (''sleep_hours'', PFloat 6.5)] m = Some v \<and>
               (normal_ok m v \<or>
                (\<exists>a. is_anomaly \<and> anomaly_type = Some a \<and> override_ok a m v))))"
proof -
  have h: "generate_reading SmartWatchDataGenerator (Datetime ''2025-01-01T00:00:00'') None None (sconst 0)
    = (Inr [(''timestamp'', PStr ''2025-01-01T00:00:00''), (''heart_rate'', PInt 120),
            (''spo2'', PFloat 95), (''temperature'', PFloat 36.1),
            (''systolic_bp'', PInt 110), (''diastolic_bp'', PInt 70),
            (''steps'', PInt 0), (''stress_level'', PInt 1),
            (''sleep_hours'', PFloat 6.5)],
       sconst 0)"
    by (simp add: generate_reading_def choose_anomaly_def base_reading_def prog_bind_def
      prog_return_def prog_lift_def SmartWatchDataGenerator_def dict_getitem_def
      random_randint_def random_uniform_def random_random_def select_anomaly_def
      random_choices_def bisect_def dict_keys_def and_then_def list_iloc_def
      should_trigger_anomaly_def round1_def round_half_even_def)
  from range_containment[OF h] h show ?thesis by blast
qed

text \<open>
  Claim C10. Whatever the anomaly (forced, drawn or none), the keys of a returned reading
  are exactly the nine keys of the \<^verbatim>\<open>data\<close> literal, in its order: applying an anomaly
  only replaces values of keys that are there, and the key \<^verbatim>\<open>'probability'\<close> of the
  anomaly configuration never gets into the reading.
\<close>

theorem reading_field_set:
  assumes "generate_reading SmartWatchDataGenerator now ts force_anomaly g = (Inr data, g')"
  shows "dict_keys data = [''timestamp'', ''heart_rate'', ''spo2'', ''temperature'',
                           ''systolic_bp'', ''diastolic_bp'', ''steps'', ''stress_level'',
                           ''sleep_hours'']
         \<and> ''probability'' \<notin> set (dict_keys data)"
proof -
  from generate_reading_cases[of force_anomaly now ts g] assms
  obtain chosen where "valid_reading chosen data" by auto
  then have "dict_keys data = reading_keys" by (simp add: valid_reading_def)
  then show ?thesis by (simp add: reading_keys_def)
qed

text \<open>C10 at a concrete call with the forced anomaly \<^verbatim>\<open>"high_bp"\<close>, which overrides two
  metrics.\<close>

theorem reading_field_set_witness:
  "generate_reading SmartWatchDataGenerator (Datetime ''2025-01-01T00:00:00'') None
      (Some ''high_bp'') (sconst 0)
    = (Inr [(''timestamp'', PStr ''2025-01-01T00:00:00''), (''heart_rate'', PInt 60),
            (''spo2'', PFloat 95), (''temperature'', PFloat 36.1),
            (''systolic_bp'', PInt 140), (''diastolic_bp'', PInt 90),
            (''steps'', PInt 0), (''stress_level'', PInt 1),
            (''sleep_hours'', PFloat 6.5)],
       sconst 0)
   \<and> dict_keys [(''timestamp'', PStr ''2025-01-01T00:00:00''), (''heart_rate'', PInt 60),
            (''spo2'', PFloat 95), (''temperature'', PFloat 36.1),
            (''systolic_bp'', PInt 140), (''diastolic_bp'', PInt 90),
            (''steps'', PInt 0), (''stress_level'', PInt 1),
            (''sleep_hours'', PFloat (6.5::real))]
       = [''timestamp'', ''heart_rate'', ''spo2'', ''temperature'',
          ''systolic_bp'', ''diastolic_bp'', ''steps'', ''stress_level'', ''sleep_hours'']
   \<and> ''probability'' \<notin> set (dict_keys [(''timestamp'', PStr ''2025-01-01T00:00:00''), (''heart_rate'', PInt 60),
            (''spo2'', PFloat 95), (''temperature'', PFloat 36.1),
            (''systolic_bp'', PInt 140), (''diastolic_bp'', PInt 90),
            (''steps'', PInt 0), (''stress_level'', PInt 1),
            (''sleep_hours'', PFloat (6.5::real))])"
proof -
  have h: "generate_reading SmartWatchDataGenerator (Datetime ''2025-01-01T00:00:00'') None
      (Some ''high_bp'') (sconst 0)
    = (Inr [(''timestamp'', PStr ''2025-01-01T00:00:00''), (''heart_rate'', PInt 60),
            (''spo2'', PFloat 95), (''temperature'', PFloat 36.1),
            (''systolic_bp'', PInt 140), (''diastolic_bp'', PInt 90),
            (''steps'', PInt 0), (''stress_level'', PInt 1),
            (''sleep_hours'', PFloat 6.5)],
       sconst 0)"
    by (simp add: generate_reading_def choose_anomaly_def base_reading_def prog_bind_def
      prog_return_def prog_lift_def SmartWatchDataGenerator_def dict_getitem_def
      random_randint_def random_uniform_def random_random_def
      round1_def round_half_even_def)
  from reading_field_set[OF h] h show ?thesis by blast
qed

end
